theory Spec2Isabelle
  imports Complex_Main
begin

section \<open>Python values\<close>

text \<open>
  The module \<open>steamapi/app.py\<close> works on values decoded from JSON and on the response
  objects that wrap JSON objects. A float is kept as the real number it denotes; no
  arithmetic is done on floats in this module, they are only stored and compared.
\<close>

datatype pyval =
    PNone
  | PBool bool
  | PInt int
  | PFloat real
  | PStr string
  | PList "pyval list"
  | PResp "(string \<times> pyval) list"

datatype error =
    ValueError string
  | AttributeError string
  | KeyError string
  | TypeError
  | UpstreamError string

text \<open>Python's \<open>==\<close>: \<open>bool\<close>, \<open>int\<close> and \<open>float\<close> compare by numeric value,
  strings and \<open>None\<close> with their own kind only, lists element by element. A response
  object has no equality of its own in the specification, so Python's default applies:
  an object equals only itself, and the two operands of every comparison in this module
  come from different responses.\<close>

fun num_of :: "pyval \<Rightarrow> real option" where
  "num_of (PBool b) = Some (if b then 1 else 0)"
| "num_of (PInt i) = Some (of_int i)"
| "num_of (PFloat r) = Some r"
| "num_of v = None"

fun py_eq :: "pyval \<Rightarrow> pyval \<Rightarrow> bool"
  and py_eq_list :: "pyval list \<Rightarrow> pyval list \<Rightarrow> bool" where
  "py_eq PNone PNone = True"
| "py_eq (PStr s) (PStr t) = (s = t)"
| "py_eq (PList xs) (PList ys) = py_eq_list xs ys"
| "py_eq a b = (case num_of a of None \<Rightarrow> False
                | Some x \<Rightarrow> (case num_of b of None \<Rightarrow> False | Some y \<Rightarrow> x = y))"
| "py_eq_list [] [] = True"
| "py_eq_list (x # xs) (y # ys) = (py_eq x y \<and> py_eq_list xs ys)"
| "py_eq_list xs ys = False"

text \<open>Python's truth value of an object, as the test of an \<open>if\<close> reads it. A response
  object has no length or truth value of its own in the specification, so it is true.\<close>

fun truthy :: "pyval \<Rightarrow> bool" where
  "truthy PNone = False"
| "truthy (PBool b) = b"
| "truthy (PInt i) = (i \<noteq> 0)"
| "truthy (PFloat r) = (r \<noteq> 0)"
| "truthy (PStr s) = (s \<noteq> [])"
| "truthy (PList xs) = (xs \<noteq> [])"
| "truthy (PResp fs) = True"

text \<open>\<open>t in s\<close> for two strings: \<open>t\<close> occurs in \<open>s\<close> as a contiguous run.\<close>

fun substring :: "string \<Rightarrow> string \<Rightarrow> bool" where
  "substring t [] = (t = [])"
| "substring t (c # s) = (take (length t) (c # s) = t \<or> substring t s)"

subsection \<open>Response objects\<close>

text \<open>
  The class \<open>APIResponse\<close> of \<open>steamapi/core.py\<close> is not among the sources. The
  specification gives a response "does this field exist" containment checks and dotted
  field access, and a store response subscripting by a string key. A response is kept as
  the list of its fields.
\<close>

text \<open>Modelled from the spec: dotted field access of \<open>APIResponse\<close> (not among the
  sources). A field that is not there raises \<open>AttributeError\<close>, as on any Python
  object; the accessors of the module test for presence first where a field is
  optional. The other values have none of the fields the module reads.\<close>

definition getattr :: "pyval \<Rightarrow> string \<Rightarrow> error + pyval" where
  "getattr v k =
     (case v of
        PResp fs \<Rightarrow> (case map_of fs k of Some x \<Rightarrow> Inr x | None \<Rightarrow> Inl (AttributeError k))
      | _ \<Rightarrow> Inl (AttributeError k))"

text \<open>Modelled from the spec: the subscript \<open>response[key]\<close> of \<open>APIResponse\<close> (not
  among the sources), used on the store response, a mapping from the text of an id to
  its entry; a key that is not there raises \<open>KeyError\<close>. The key is always a string
  here, which no other value accepts as a subscript.\<close>

definition getitem :: "pyval \<Rightarrow> string \<Rightarrow> error + pyval" where
  "getitem v k =
     (case v of
        PResp fs \<Rightarrow> (case map_of fs k of Some x \<Rightarrow> Inr x | None \<Rightarrow> Inl (KeyError k))
      | _ \<Rightarrow> Inl TypeError)"

text \<open>Modelled from the spec: the containment check \<open>k in response\<close> of
  \<open>APIResponse\<close> (not among the sources) is "does this field exist"; field names are
  strings, so another key names no field. On the other values \<open>k in v\<close> is Python's
  own: membership in a list, a substring test on a string, and a \<open>TypeError\<close> on
  anything else.\<close>

definition contains :: "pyval \<Rightarrow> pyval \<Rightarrow> error + bool" where
  "contains k v =
     (case v of
        PResp fs \<Rightarrow> Inr (case k of PStr s \<Rightarrow> map_of fs s \<noteq> None | _ \<Rightarrow> False)
      | PList xs \<Rightarrow> Inr (list_ex (\<lambda>x. py_eq x k) xs)
      | PStr s \<Rightarrow> (case k of PStr t \<Rightarrow> Inr (substring t s) | _ \<Rightarrow> Inl TypeError)
      | _ \<Rightarrow> Inl TypeError)"

text \<open>Modelled from the spec: iteration \<open>for x in v\<close>. The specification gives
  \<open>APIResponse\<close> (not among the sources) no iteration, so a response raises as any
  object without one does; a list gives its elements, a string its characters.\<close>

definition iterate :: "pyval \<Rightarrow> error + pyval list" where
  "iterate v =
     (case v of
        PList xs \<Rightarrow> Inr xs
      | PStr s \<Rightarrow> Inr (map (\<lambda>c. PStr [c]) s)
      | _ \<Rightarrow> Inl TypeError)"

definition bind_e :: "error + 'a \<Rightarrow> ('a \<Rightarrow> error + 'b) \<Rightarrow> error + 'b" where
  "bind_e r f = (case r of Inl e \<Rightarrow> Inl e | Inr x \<Rightarrow> f x)"

section \<open>The world outside: remote calls and the clock\<close>

text \<open>
  \<open>APIConnection().call\<close> and \<open>StoreAPIConnection().call\<close> are external collaborators.
  A request is answered by the parameter \<open>api\<close>, which may look at every request made
  before; the answer is a response or an error that propagates. The world records the
  requests made, in order, and how often the clock was read; \<open>time.time()\<close> reads the
  parameter \<open>clock\<close>.
\<close>

datatype request =
    APICall string string string "(string \<times> pyval) list"
  | StoreCall string "(string \<times> pyval) list"

record env =
  api :: "request list \<Rightarrow> request \<Rightarrow> error + pyval"
  clock :: "nat \<Rightarrow> real"
  py_repr :: "pyval \<Rightarrow> string"

record world =
  calls :: "request list"
  ticks :: nat

type_synonym 'a M = "world \<Rightarrow> (error + 'a) \<times> world"

definition return :: "'a \<Rightarrow> 'a M" where
  "return x = (\<lambda>w. (Inr x, w))"

definition raise :: "error \<Rightarrow> 'a M" where
  "raise e = (\<lambda>w. (Inl e, w))"

definition lift :: "error + 'a \<Rightarrow> 'a M" where
  "lift r = (\<lambda>w. (r, w))"

definition bind :: "'a M \<Rightarrow> ('a \<Rightarrow> 'b M) \<Rightarrow> 'b M" where
  "bind m f = (\<lambda>w. case m w of (Inl e, w') \<Rightarrow> (Inl e, w') | (Inr x, w') \<Rightarrow> f x w')"

definition tick :: "world \<Rightarrow> world" where
  "tick w = w\<lparr>ticks := Suc (ticks w)\<rparr>"

definition time_time :: "env \<Rightarrow> real M" where
  "time_time e = (\<lambda>w. (Inr (clock e (ticks w)), tick w))"

definition call :: "env \<Rightarrow> request \<Rightarrow> pyval M" where
  "call e req = (\<lambda>w. (api e (calls w) req, w\<lparr>calls := calls w @ [req]\<rparr>))"

definition APIConnection_call ::
  "env \<Rightarrow> string \<Rightarrow> string \<Rightarrow> string \<Rightarrow> (string \<times> pyval) list \<Rightarrow> pyval M" where
  "APIConnection_call e interface method version params =
     call e (APICall interface method version params)"

definition StoreAPIConnection_call :: "env \<Rightarrow> string \<Rightarrow> (string \<times> pyval) list \<Rightarrow> pyval M" where
  "StoreAPIConnection_call e endpoint params = call e (StoreCall endpoint params)"

section \<open>Entities\<close>

record SteamAchievement =
  ach_appid :: pyval
  ach_id :: pyval
  ach_displayname :: pyval
  ach_userid :: pyval
  unlock_percentage :: pyval
  ach_cache :: "string \<Rightarrow> (pyval \<times> real) option"

datatype cval = CVal pyval | CAchs "SteamAchievement list"

record SteamApp =
  app_id :: pyval
  app_cache :: "string \<Rightarrow> (cval \<times> real) option"
  app_owner :: pyval
  app_userid :: pyval

text \<open>\<open>SteamApp.__init__\<close>: a name given at construction is placed in the cache under
  \<open>name\<close>, with the time of construction. The instance has no cache attribute
  otherwise; the cache of the model is empty then.\<close>

definition SteamApp_init :: "env \<Rightarrow> pyval \<Rightarrow> pyval \<Rightarrow> pyval \<Rightarrow> SteamApp M" where
  "SteamApp_init e appid name owner =
     (if name \<noteq> PNone then
        bind (time_time e) (\<lambda>now.
        return \<lparr>app_id = appid, app_cache = Map.empty(''name'' \<mapsto> (CVal name, now)),
                app_owner = owner, app_userid = owner\<rparr>)
      else
        return \<lparr>app_id = appid, app_cache = Map.empty, app_owner = owner, app_userid = owner\<rparr>)"

text \<open>\<open>SteamApp.from_api_response\<close>.\<close>

definition from_api_response :: "env \<Rightarrow> pyval \<Rightarrow> pyval \<Rightarrow> SteamApp M" where
  "from_api_response e api_json associated_userid =
     bind (lift (contains (PStr ''appid'') api_json)) (\<lambda>has_appid.
     if \<not> has_appid then
       raise (ValueError ''An app ID is required to create a SteamApp object.'')
     else
       bind (lift (getattr api_json ''appid'')) (\<lambda>appid.
       bind (lift (contains (PStr ''name'') api_json)) (\<lambda>has_name.
       bind (if has_name then lift (getattr api_json ''name'') else return PNone) (\<lambda>name.
       SteamApp_init e appid name associated_userid))))"

text \<open>\<open>SteamAchievement.__init__\<close>. The constructor sets no cache attribute; the cache
  of the model is empty.\<close>

definition SteamAchievement_init :: "pyval \<Rightarrow> pyval \<Rightarrow> pyval \<Rightarrow> pyval \<Rightarrow> SteamAchievement" where
  "SteamAchievement_init linked_appid apiname displayname linked_userid =
     \<lparr>ach_appid = linked_appid, ach_id = apiname, ach_displayname = displayname,
      ach_userid = linked_userid, unlock_percentage = PFloat 0, ach_cache = Map.empty\<rparr>"

definition SteamAchievement_apiname :: "SteamAchievement \<Rightarrow> pyval" where
  "SteamAchievement_apiname self = ach_id self"

subsection \<open>Hashing\<close>

text \<open>
  \<open>__hash__\<close> applies Python's built-in \<open>hash\<close> to a pair. The pair handed to
  \<open>hash\<close> is the key; the built-in is a parameter, so the same pair has the same
  hash whatever the built-in is. The accessor \<open>self.id\<close> belongs to the base class \<open>SteamObject\<close>
  of \<open>steamapi/core.py\<close>, which is not among the sources; by the specification it is
  the entity's natural id, the field \<open>_id\<close> that both constructors set.
\<close>

definition SteamApp_hash_key :: "SteamApp \<Rightarrow> pyval \<times> pyval" where
  "SteamApp_hash_key self = (PStr ''app'', app_id self)"

definition SteamAchievement_hash_key :: "SteamAchievement \<Rightarrow> pyval \<times> pyval" where
  "SteamAchievement_hash_key self = (ach_id self, ach_appid self)"

definition SteamApp_hash :: "(pyval \<times> pyval \<Rightarrow> int) \<Rightarrow> SteamApp \<Rightarrow> int" where
  "SteamApp_hash py_hash self = py_hash (SteamApp_hash_key self)"

definition SteamAchievement_hash :: "(pyval \<times> pyval \<Rightarrow> int) \<Rightarrow> SteamAchievement \<Rightarrow> int" where
  "SteamAchievement_hash py_hash self = py_hash (SteamAchievement_hash_key self)"

section \<open>Cached properties\<close>

text \<open>Modelled from the spec: the constant \<open>INFINITE\<close> of \<open>steamapi/decorators.py\<close>
  (not among the sources): a TTL is a duration or the sentinel \<open>INFINITE\<close>, with which
  an entry never expires; an entry has expired when \<open>now - computed_at >= TTL\<close>.\<close>

datatype ttl = INFINITE | Seconds real

definition expired :: "ttl \<Rightarrow> real \<Rightarrow> real \<Rightarrow> bool" where
  "expired t now computed_at =
     (case t of INFINITE \<Rightarrow> False | Seconds d \<Rightarrow> now - computed_at \<ge> d)"

text \<open>Modelled from the spec: the decorator \<open>cached_property\<close> of
  \<open>steamapi/decorators.py\<close> (not among the sources). A read looks the property's name
  up in the cache of the instance; if there is no entry, or the entry has expired, it
  calls the computation, stores \<open>(result, now)\<close> and returns the result; otherwise it
  returns the stored value without calling the computation. A computation that raises
  stores nothing, and its error propagates.\<close>

definition cached_property ::
  "ttl \<Rightarrow> string \<Rightarrow> ('o \<Rightarrow> string \<Rightarrow> ('v \<times> real) option) \<Rightarrow>
   ((string \<Rightarrow> ('v \<times> real) option) \<Rightarrow> 'o \<Rightarrow> 'o) \<Rightarrow>
   (env \<Rightarrow> 'o \<Rightarrow> ('v \<times> 'o) M) \<Rightarrow> env \<Rightarrow> 'o \<Rightarrow> ('v \<times> 'o) M" where
  "cached_property t name get_cache set_cache fget e self =
     bind (time_time e) (\<lambda>now.
     case (case get_cache self name of
             None \<Rightarrow> None
           | Some (v, computed_at) \<Rightarrow> if expired t now computed_at then None else Some v) of
       Some v \<Rightarrow> return (v, self)
     | None \<Rightarrow>
         bind (fget e self) (\<lambda>(result, self').
         return (result, set_cache ((get_cache self')(name \<mapsto> (result, now))) self')))"

definition set_app_cache :: "(string \<Rightarrow> (cval \<times> real) option) \<Rightarrow> SteamApp \<Rightarrow> SteamApp" where
  "set_app_cache c self = self\<lparr>app_cache := c\<rparr>"

definition set_ach_cache ::
  "(string \<Rightarrow> (pyval \<times> real) option) \<Rightarrow> SteamAchievement \<Rightarrow> SteamAchievement" where
  "set_ach_cache c self = self\<lparr>ach_cache := c\<rparr>"

text \<open>Modelled from the spec: the function \<open>store\<close> of \<open>steamapi/core.py\<close> (not among
  the sources): \<open>store(obj, property_name, data)\<close> inserts \<open>(data, now)\<close> into the
  cache of \<open>obj\<close> under the property's name, bypassing the computation. This module
  applies it to achievements only.\<close>

definition store :: "env \<Rightarrow> SteamAchievement \<Rightarrow> string \<Rightarrow> pyval \<Rightarrow> SteamAchievement M" where
  "store e obj property_name data =
     bind (time_time e) (\<lambda>now.
     return (set_ach_cache ((ach_cache obj)(property_name \<mapsto> (data, now))) obj))"

text \<open>A cached value of a \<open>SteamApp\<close> read as a Python object: a list of achievements
  has no fields, and is true when it is not empty.\<close>

definition getattr_c :: "cval \<Rightarrow> string \<Rightarrow> error + pyval" where
  "getattr_c c k = (case c of CVal v \<Rightarrow> getattr v k | CAchs l \<Rightarrow> Inl (AttributeError k))"

definition truthy_c :: "cval \<Rightarrow> bool" where
  "truthy_c c = (case c of CVal v \<Rightarrow> truthy v | CAchs l \<Rightarrow> l \<noteq> [])"

section \<open>SteamApp: schema, achievements, name\<close>

definition SteamApp_schema_fget :: "env \<Rightarrow> SteamApp \<Rightarrow> (cval \<times> SteamApp) M" where
  "SteamApp_schema_fget e self =
     bind (APIConnection_call e ''ISteamUserStats'' ''GetSchemaForGame'' ''v2''
             [(''appid'', app_id self)]) (\<lambda>response.
     return (CVal response, self))"

definition SteamApp_schema :: "env \<Rightarrow> SteamApp \<Rightarrow> (cval \<times> SteamApp) M" where
  "SteamApp_schema = cached_property INFINITE ''_schema'' app_cache set_app_cache SteamApp_schema_fget"

text \<open>Lines 59 to 73 of \<open>achievements\<close>: the pair \<open>(userid, unlocks)\<close>. With a user
  bound, \<open>unlocks\<close> is the list of the names achieved when the statistics carry
  \<open>achievements\<close>, and is left the response itself when they do not.\<close>

fun achieved_names :: "pyval list \<Rightarrow> error + pyval list" where
  "achieved_names [] = Inr []"
| "achieved_names (associated_achievement # rest) =
     bind_e (getattr associated_achievement ''achieved'') (\<lambda>achieved.
     if \<not> py_eq achieved (PInt 0) then
       bind_e (getattr associated_achievement ''name'') (\<lambda>name.
       bind_e (achieved_names rest) (\<lambda>names. Inr (name # names)))
     else achieved_names rest)"

definition fetch_unlocks :: "env \<Rightarrow> SteamApp \<Rightarrow> (pyval \<times> pyval) M" where
  "fetch_unlocks e self =
     (if app_userid self \<noteq> PNone then
        bind (APIConnection_call e ''ISteamUserStats'' ''GetUserStatsForGame'' ''v2''
                [(''appid'', app_id self), (''steamid'', app_userid self)]) (\<lambda>unlocks.
        bind (lift (getattr unlocks ''playerstats'')) (\<lambda>playerstats.
        bind (lift (contains (PStr ''achievements'') playerstats)) (\<lambda>has.
        if has then
          bind (lift (getattr unlocks ''playerstats'')) (\<lambda>playerstats.
          bind (lift (getattr playerstats ''achievements'')) (\<lambda>achievements.
          bind (lift (iterate achievements)) (\<lambda>items.
          bind (lift (achieved_names items)) (\<lambda>names.
          return (app_userid self, PList names)))))
        else return (app_userid self, unlocks))))
      else return (PNone, PNone))"

text \<open>Lines 85 to 87: the loop over the global percentages, with no \<open>break\<close>: the last
  entry of the same name decides.\<close>

definition global_entries :: "pyval \<Rightarrow> error + pyval list" where
  "global_entries global_percentages =
     bind_e (getattr global_percentages ''achievementpercentages'') (\<lambda>a.
     bind_e (getattr a ''achievements'') iterate)"

fun assign_percentage :: "pyval \<Rightarrow> pyval list \<Rightarrow> SteamAchievement \<Rightarrow> error + SteamAchievement" where
  "assign_percentage achievement [] achievement_obj = Inr achievement_obj"
| "assign_percentage achievement (global_achievement # rest) achievement_obj =
     bind_e (getattr global_achievement ''name'') (\<lambda>gname.
     bind_e (getattr achievement ''name'') (\<lambda>name.
     if py_eq gname name then
       bind_e (getattr global_achievement ''percent'') (\<lambda>percent.
       assign_percentage achievement rest (achievement_obj\<lparr>unlock_percentage := percent\<rparr>))
     else assign_percentage achievement rest achievement_obj))"

text \<open>Lines 79 to 87: one achievement of the schema.\<close>

definition make_achievement ::
  "env \<Rightarrow> SteamApp \<Rightarrow> pyval \<Rightarrow> pyval \<Rightarrow> pyval \<Rightarrow> SteamAchievement M" where
  "make_achievement e self userid global_percentages achievement =
     bind (lift (getattr achievement ''name'')) (\<lambda>name.
     bind (lift (getattr achievement ''displayName'')) (\<lambda>displayName.
     bind (return (set_ach_cache Map.empty
                     (SteamAchievement_init (app_id self) name displayName userid)))
       (\<lambda>achievement_obj.
     bind (lift (getattr achievement ''hidden'')) (\<lambda>hidden.
     bind (if py_eq hidden (PInt 0) then store e achievement_obj ''is_hidden'' (PBool False)
           else store e achievement_obj ''is_hidden'' (PBool True)) (\<lambda>achievement_obj.
     bind (lift (global_entries global_percentages)) (\<lambda>entries.
     lift (assign_percentage achievement entries achievement_obj)))))))"

text \<open>Lines 78 to 88: the loop over the achievements of the schema, appending.\<close>

fun build_achievements ::
  "env \<Rightarrow> SteamApp \<Rightarrow> pyval \<Rightarrow> pyval \<Rightarrow> pyval list \<Rightarrow> SteamAchievement list \<Rightarrow>
   SteamAchievement list M" where
  "build_achievements e self userid global_percentages [] achievements_list =
     return achievements_list"
| "build_achievements e self userid global_percentages (achievement # rest) achievements_list =
     bind (make_achievement e self userid global_percentages achievement) (\<lambda>achievement_obj.
     build_achievements e self userid global_percentages rest
       (achievements_list @ [achievement_obj]))"

text \<open>Lines 90 to 94: every achievement of the list gets its \<open>is_achieved\<close> entry.\<close>

fun mark_achieved :: "env \<Rightarrow> pyval \<Rightarrow> SteamAchievement list \<Rightarrow> SteamAchievement list M" where
  "mark_achieved e unlocks [] = return []"
| "mark_achieved e unlocks (achievement # rest) =
     bind (lift (contains (SteamAchievement_apiname achievement) unlocks)) (\<lambda>is_in.
     bind (if is_in then store e achievement ''is_achieved'' (PBool True)
           else store e achievement ''is_achieved'' (PBool False)) (\<lambda>achievement'.
     bind (mark_achieved e unlocks rest) (\<lambda>rest'.
     return (achievement' # rest'))))"

definition schema_achievements :: "cval \<Rightarrow> error + pyval list" where
  "schema_achievements schema =
     bind_e (getattr_c schema ''game'') (\<lambda>game.
     bind_e (getattr game ''availableGameStats'') (\<lambda>stats.
     bind_e (getattr stats ''achievements'') iterate))"

definition SteamApp_achievements_fget :: "env \<Rightarrow> SteamApp \<Rightarrow> (cval \<times> SteamApp) M" where
  "SteamApp_achievements_fget e self =
     bind (APIConnection_call e ''ISteamUserStats'' ''GetGlobalAchievementPercentagesForApp''
             ''v0002'' [(''gameid'', app_id self)]) (\<lambda>global_percentages.
     bind (fetch_unlocks e self) (\<lambda>(userid, unlocks).
     bind (SteamApp_schema e self) (\<lambda>(schema, self).
     bind (lift (getattr_c schema ''game'')) (\<lambda>game.
     bind (lift (contains (PStr ''availableGameStats'') game)) (\<lambda>has.
     if \<not> has then return (CAchs [], self)
     else
       bind (SteamApp_schema e self) (\<lambda>(schema, self).
       bind (lift (schema_achievements schema)) (\<lambda>achievements.
       bind (build_achievements e self userid global_percentages achievements [])
         (\<lambda>achievements_list.
       if unlocks \<noteq> PNone then
         bind (mark_achieved e unlocks achievements_list) (\<lambda>achievements_list.
         return (CAchs achievements_list, self))
       else return (CAchs achievements_list, self)))))))))"

definition SteamApp_achievements :: "env \<Rightarrow> SteamApp \<Rightarrow> (cval \<times> SteamApp) M" where
  "SteamApp_achievements =
     cached_property INFINITE ''achievements'' app_cache set_app_cache SteamApp_achievements_fget"

definition SteamApp_name_fget :: "env \<Rightarrow> SteamApp \<Rightarrow> (cval \<times> SteamApp) M" where
  "SteamApp_name_fget e self =
     bind (SteamApp_schema e self) (\<lambda>(schema, self).
     bind (lift (getattr_c schema ''game'')) (\<lambda>game.
     bind (lift (contains (PStr ''gameName'') game)) (\<lambda>has.
     if has then
       bind (SteamApp_schema e self) (\<lambda>(schema, self).
       bind (lift (getattr_c schema ''game'')) (\<lambda>game.
       bind (lift (getattr game ''gameName'')) (\<lambda>gameName.
       return (CVal gameName, self))))
     else return (CVal (PStr ''<Unknown>''), self))))"

definition SteamApp_name :: "env \<Rightarrow> SteamApp \<Rightarrow> (cval \<times> SteamApp) M" where
  "SteamApp_name = cached_property INFINITE ''name'' app_cache set_app_cache SteamApp_name_fget"

section \<open>SteamApp: store metadata\<close>

text \<open>\<open>str(self._id)\<close>: the decimal numeral of an integer, a string itself; Python's
  text of a float, a list or a response object is the parameter \<open>py_repr\<close>.\<close>

fun str_nat :: "nat \<Rightarrow> string" where
  "str_nat n = (if n < 10 then [''0123456789'' ! n]
                else str_nat (n div 10) @ [''0123456789'' ! (n mod 10)])"

declare str_nat.simps [simp del]

definition py_str :: "env \<Rightarrow> pyval \<Rightarrow> string" where
  "py_str e v =
     (case v of
        PInt i \<Rightarrow> (if i < 0 then CHR ''-'' # str_nat (nat (- i)) else str_nat (nat i))
      | PStr s \<Rightarrow> s
      | PNone \<Rightarrow> ''None''
      | PBool b \<Rightarrow> (if b then ''True'' else ''False'')
      | _ \<Rightarrow> py_repr e v)"

definition appdetails_params :: "SteamApp \<Rightarrow> (string \<times> pyval) list" where
  "appdetails_params self =
     [(''appids'', app_id self),
      (''filters'', PStr (''basic,fullgame,developers,'' @
                          ''publishers,demos,price_overview,'' @
                          ''platforms,metacritic,categories,'' @
                          ''genres,recommendations,'' @
                          ''release_date''))]"

definition SteamApp_app_info_fget :: "env \<Rightarrow> SteamApp \<Rightarrow> (cval \<times> SteamApp) M" where
  "SteamApp_app_info_fget e self =
     bind (StoreAPIConnection_call e ''appdetails'' (appdetails_params self)) (\<lambda>response.
     bind (lift (getitem response (py_str e (app_id self)))) (\<lambda>entry.
     bind (lift (getattr entry ''success'')) (\<lambda>success.
     if truthy success then
       bind (lift (getitem response (py_str e (app_id self)))) (\<lambda>entry.
       bind (lift (getattr entry ''data'')) (\<lambda>data.
       return (CVal data, self)))
     else return (CVal PNone, self))))"

definition SteamApp_app_info :: "env \<Rightarrow> SteamApp \<Rightarrow> (cval \<times> SteamApp) M" where
  "SteamApp_app_info =
     cached_property INFINITE ''app_info'' app_cache set_app_cache SteamApp_app_info_fget"

text \<open>The derived accessors are plain properties of one shape:
  \<open>if self.app_info: return self.app_info.FIELD\<close>, and \<open>None\<close> otherwise.\<close>

definition app_info_field :: "string \<Rightarrow> env \<Rightarrow> SteamApp \<Rightarrow> (pyval \<times> SteamApp) M" where
  "app_info_field field e self =
     bind (SteamApp_app_info e self) (\<lambda>(info, self).
     if truthy_c info then
       bind (SteamApp_app_info e self) (\<lambda>(info, self).
       bind (lift (getattr_c info field)) (\<lambda>v.
       return (v, self)))
     else return (PNone, self))"

definition SteamApp_type :: "env \<Rightarrow> SteamApp \<Rightarrow> (pyval \<times> SteamApp) M" where
  "SteamApp_type = app_info_field ''type''"

definition SteamApp_required_age :: "env \<Rightarrow> SteamApp \<Rightarrow> (pyval \<times> SteamApp) M" where
  "SteamApp_required_age = app_info_field ''required_age''"

definition SteamApp_dlc :: "env \<Rightarrow> SteamApp \<Rightarrow> (pyval \<times> SteamApp) M" where
  "SteamApp_dlc = app_info_field ''dlc''"

definition SteamApp_detailed_description :: "env \<Rightarrow> SteamApp \<Rightarrow> (pyval \<times> SteamApp) M" where
  "SteamApp_detailed_description = app_info_field ''detailed_description''"

definition SteamApp_about_the_game :: "env \<Rightarrow> SteamApp \<Rightarrow> (pyval \<times> SteamApp) M" where
  "SteamApp_about_the_game = app_info_field ''about_the_game''"

definition SteamApp_supported_languages :: "env \<Rightarrow> SteamApp \<Rightarrow> (pyval \<times> SteamApp) M" where
  "SteamApp_supported_languages = app_info_field ''supported_languages''"

definition SteamApp_header_image :: "env \<Rightarrow> SteamApp \<Rightarrow> (pyval \<times> SteamApp) M" where
  "SteamApp_header_image = app_info_field ''header_image''"

definition SteamApp_legal_notice :: "env \<Rightarrow> SteamApp \<Rightarrow> (pyval \<times> SteamApp) M" where
  "SteamApp_legal_notice = app_info_field ''legal_notice''"

definition SteamApp_website :: "env \<Rightarrow> SteamApp \<Rightarrow> (pyval \<times> SteamApp) M" where
  "SteamApp_website = app_info_field ''website''"

definition SteamApp_pc_requirements :: "env \<Rightarrow> SteamApp \<Rightarrow> (pyval \<times> SteamApp) M" where
  "SteamApp_pc_requirements = app_info_field ''pc_requirements''"

definition SteamApp_mac_requirements :: "env \<Rightarrow> SteamApp \<Rightarrow> (pyval \<times> SteamApp) M" where
  "SteamApp_mac_requirements = app_info_field ''mac_requirements''"

definition SteamApp_linux_requirements :: "env \<Rightarrow> SteamApp \<Rightarrow> (pyval \<times> SteamApp) M" where
  "SteamApp_linux_requirements = app_info_field ''linux_requirements''"

definition SteamApp_fullgame :: "env \<Rightarrow> SteamApp \<Rightarrow> (pyval \<times> SteamApp) M" where
  "SteamApp_fullgame = app_info_field ''fullgame''"

definition SteamApp_developers :: "env \<Rightarrow> SteamApp \<Rightarrow> (pyval \<times> SteamApp) M" where
  "SteamApp_developers = app_info_field ''developers''"

definition SteamApp_publishers :: "env \<Rightarrow> SteamApp \<Rightarrow> (pyval \<times> SteamApp) M" where
  "SteamApp_publishers = app_info_field ''publishers''"

definition SteamApp_demos :: "env \<Rightarrow> SteamApp \<Rightarrow> (pyval \<times> SteamApp) M" where
  "SteamApp_demos = app_info_field ''demos''"

definition SteamApp_price_overview :: "env \<Rightarrow> SteamApp \<Rightarrow> (pyval \<times> SteamApp) M" where
  "SteamApp_price_overview = app_info_field ''price_overview''"

definition SteamApp_platforms :: "env \<Rightarrow> SteamApp \<Rightarrow> (pyval \<times> SteamApp) M" where
  "SteamApp_platforms = app_info_field ''platforms''"

definition SteamApp_metacritic :: "env \<Rightarrow> SteamApp \<Rightarrow> (pyval \<times> SteamApp) M" where
  "SteamApp_metacritic = app_info_field ''metacritic''"

definition SteamApp_categories :: "env \<Rightarrow> SteamApp \<Rightarrow> (pyval \<times> SteamApp) M" where
  "SteamApp_categories = app_info_field ''categories''"

definition SteamApp_genres :: "env \<Rightarrow> SteamApp \<Rightarrow> (pyval \<times> SteamApp) M" where
  "SteamApp_genres = app_info_field ''genres''"

definition SteamApp_recommendations :: "env \<Rightarrow> SteamApp \<Rightarrow> (pyval \<times> SteamApp) M" where
  "SteamApp_recommendations = app_info_field ''recommendations''"

definition SteamApp_release_date :: "env \<Rightarrow> SteamApp \<Rightarrow> (pyval \<times> SteamApp) M" where
  "SteamApp_release_date = app_info_field ''release_date''"

definition derived_accessors :: "(env \<Rightarrow> SteamApp \<Rightarrow> (pyval \<times> SteamApp) M) list" where
  "derived_accessors =
     [SteamApp_type, SteamApp_required_age, SteamApp_dlc, SteamApp_detailed_description,
      SteamApp_about_the_game, SteamApp_supported_languages, SteamApp_header_image,
      SteamApp_legal_notice, SteamApp_website, SteamApp_pc_requirements,
      SteamApp_mac_requirements, SteamApp_linux_requirements, SteamApp_fullgame,
      SteamApp_developers, SteamApp_publishers, SteamApp_demos, SteamApp_price_overview,
      SteamApp_platforms, SteamApp_metacritic, SteamApp_categories, SteamApp_genres,
      SteamApp_recommendations, SteamApp_release_date]"

section \<open>SteamAchievement: is_unlocked\<close>

fun find_unlocked :: "pyval \<Rightarrow> pyval list \<Rightarrow> error + pyval" where
  "find_unlocked self_id [] = Inr (PBool False)"
| "find_unlocked self_id (achievement # rest) =
     bind_e (getattr achievement ''apiname'') (\<lambda>apiname.
     if py_eq apiname self_id then
       bind_e (getattr achievement ''achieved'') (\<lambda>achieved.
       if py_eq achieved (PInt 1) then Inr (PBool True) else Inr (PBool False))
     else find_unlocked self_id rest)"

definition SteamAchievement_is_unlocked_fget ::
  "env \<Rightarrow> SteamAchievement \<Rightarrow> (pyval \<times> SteamAchievement) M" where
  "SteamAchievement_is_unlocked_fget e self =
     (if ach_userid self = PNone then
        raise (ValueError ''No Steam ID linked to this achievement!'')
      else
        bind (APIConnection_call e ''ISteamUserStats'' ''GetPlayerAchievements'' ''v1''
                [(''steamid'', ach_userid self), (''appid'', ach_appid self),
                 (''l'', PStr ''English'')]) (\<lambda>response.
        bind (lift (getattr response ''playerstats'')) (\<lambda>playerstats.
        bind (lift (getattr playerstats ''achievements'')) (\<lambda>achievements.
        bind (lift (iterate achievements)) (\<lambda>items.
        bind (lift (find_unlocked (ach_id self) items)) (\<lambda>r.
        return (r, self)))))))"

definition SteamAchievement_is_unlocked ::
  "env \<Rightarrow> SteamAchievement \<Rightarrow> (pyval \<times> SteamAchievement) M" where
  "SteamAchievement_is_unlocked =
     cached_property INFINITE ''is_unlocked'' ach_cache set_ach_cache
       SteamAchievement_is_unlocked_fget"

section \<open>Vocabulary of the statements\<close>

text \<open>The field of a record of a response, for use where the field is known to be there;
  the value kept under a property's name in an achievement's cache.\<close>

definition has_field :: "pyval \<Rightarrow> string \<Rightarrow> bool" where
  "has_field v k = (case getattr v k of Inl er \<Rightarrow> False | Inr x \<Rightarrow> True)"

definition field_of :: "pyval \<Rightarrow> string \<Rightarrow> pyval" where
  "field_of v k = (case getattr v k of Inl er \<Rightarrow> PNone | Inr x \<Rightarrow> x)"

definition cached :: "SteamAchievement \<Rightarrow> string \<Rightarrow> pyval option" where
  "cached a k = map_option fst (ach_cache a k)"

text \<open>The percentage the global entries give a name: that of the last entry of this
  name, which is the only one when names are not repeated, and \<open>0.0\<close> when there is
  none.\<close>

definition matching_percentage :: "pyval list \<Rightarrow> pyval \<Rightarrow> pyval" where
  "matching_percentage entries name =
     (case filter (\<lambda>g. py_eq (field_of g ''name'') name) entries of
        [] \<Rightarrow> PFloat 0
      | g # gs \<Rightarrow> field_of (last (g # gs)) ''percent'')"

text \<open>The user's achieved set: the names of the entries of the user's statistics whose
  \<open>achieved\<close> flag is not \<open>0\<close>.\<close>

definition achieved_set :: "pyval list \<Rightarrow> pyval list" where
  "achieved_set items =
     map (\<lambda>a. field_of a ''name'')
       (filter (\<lambda>a. \<not> py_eq (field_of a ''achieved'') (PInt 0)) items)"

text \<open>The value a property read returns, or the error it raises.\<close>

definition value_of :: "('a \<times> 'o) M \<Rightarrow> world \<Rightarrow> error + 'a" where
  "value_of m w = (case fst (m w) of Inl er \<Rightarrow> Inl er | Inr (v, self') \<Rightarrow> Inr v)"

section \<open>Example data\<close>

definition env0 :: env where
  "env0 = \<lparr>api = (\<lambda>history req. Inl (UpstreamError ''offline'')),
           clock = (\<lambda>n. of_nat n), py_repr = (\<lambda>v. [])\<rparr>"

definition w0 :: world where
  "w0 = \<lparr>calls = [], ticks = 0\<rparr>"

definition ex_global :: pyval where
  "ex_global =
     PResp [(''achievementpercentages'', PResp [(''achievements'', PList
       [PResp [(''name'', PStr ''A''), (''percent'', PFloat 10)],
        PResp [(''name'', PStr ''B''), (''percent'', PFloat 20)]])])]"

definition ex_schema :: pyval where
  "ex_schema =
     PResp [(''game'', PResp [(''gameName'', PStr ''Example''), (''gameVersion'', PStr ''3''),
       (''availableGameStats'', PResp [(''achievements'', PList
          [PResp [(''name'', PStr ''A''), (''defaultvalue'', PInt 0),
                  (''displayName'', PStr ''First''), (''hidden'', PInt 0)],
           PResp [(''name'', PStr ''B''), (''defaultvalue'', PInt 0),
                  (''displayName'', PStr ''Second''), (''hidden'', PInt 1)]])])])]"

definition ex_schema_playerstats :: pyval where
  "ex_schema_playerstats =
     PResp [(''game'', PResp [(''gameName'', PStr ''Example''),
       (''availableGameStats'', PResp [(''achievements'', PList
          [PResp [(''name'', PStr ''playerstats''), (''defaultvalue'', PInt 0),
                  (''displayName'', PStr ''Statistician''), (''hidden'', PInt 0)]])])])]"

definition ex_schema_hidden :: pyval where
  "ex_schema_hidden = PResp [(''game'', PResp [])]"

definition ex_stats :: pyval where
  "ex_stats =
     PResp [(''playerstats'', PResp [(''steamID'', PStr ''7''), (''gameName'', PStr ''Example''),
       (''achievements'', PList [PResp [(''name'', PStr ''A''), (''achieved'', PInt 1)]])])]"

definition ex_stats_none :: pyval where
  "ex_stats_none =
     PResp [(''playerstats'', PResp [(''steamID'', PStr ''7''), (''gameName'', PStr ''Example'')])]"

definition ex_player :: pyval where
  "ex_player =
     PResp [(''playerstats'', PResp [(''steamID'', PStr ''7''), (''gameName'', PStr ''Example''),
       (''achievements'', PList
          [PResp [(''apiname'', PStr ''A''), (''achieved'', PInt 1), (''unlocktime'', PInt 5)]]),
       (''success'', PBool True)])]"

definition ex_player_no_list :: pyval where
  "ex_player_no_list =
     PResp [(''playerstats'', PResp [(''steamID'', PStr ''7''), (''gameName'', PStr ''Example''),
       (''success'', PBool True)])]"

definition ex_store_failed :: pyval where
  "ex_store_failed = PResp [(''440'', PResp [(''success'', PBool False)])]"

definition ex_env :: "pyval \<Rightarrow> pyval \<Rightarrow> env" where
  "ex_env schema stats =
     \<lparr>api = (\<lambda>history req.
         case req of
           APICall interface method version params \<Rightarrow>
             if method = ''GetGlobalAchievementPercentagesForApp'' then Inr ex_global
             else if method = ''GetUserStatsForGame'' then Inr stats
             else if method = ''GetSchemaForGame'' then Inr schema
             else if method = ''GetPlayerAchievements'' then Inr ex_player
             else Inl (UpstreamError ''no such method'')
         | StoreCall endpoint params \<Rightarrow> Inr ex_store_failed),
      clock = (\<lambda>n. of_nat n), py_repr = (\<lambda>v. [])\<rparr>"

definition ex_env_no_list :: env where
  "ex_env_no_list =
     \<lparr>api = (\<lambda>history req.
         case req of
           APICall interface method version params \<Rightarrow>
             if method = ''GetPlayerAchievements'' then Inr ex_player_no_list
             else Inl (UpstreamError ''no such method'')
         | StoreCall endpoint params \<Rightarrow> Inr ex_store_failed),
      clock = (\<lambda>n. of_nat n), py_repr = (\<lambda>v. [])\<rparr>"

definition ex_named_app :: SteamApp where
  "ex_named_app =
     \<lparr>app_id = PInt 440, app_cache = Map.empty(''name'' \<mapsto> (CVal (PStr ''Portal''), 0)),
      app_owner = PNone, app_userid = PNone\<rparr>"

definition ex_app :: "pyval \<Rightarrow> SteamApp" where
  "ex_app userid =
     \<lparr>app_id = PInt 440, app_cache = Map.empty, app_owner = userid, app_userid = userid\<rparr>"

section \<open>Facts about the monad, the cache and the fields\<close>

lemma bind_return [simp]: "bind (return x) f = f x"
  by (simp add: bind_def return_def)

lemma bind_raise [simp]: "bind (raise e) f = raise e"
  by (rule ext) (simp add: bind_def raise_def)

lemma bind_lift_Inr [simp]: "bind (lift (Inr x)) f = f x"
  by (simp add: bind_def lift_def)

lemma bind_lift_Inl [simp]: "bind (lift (Inl e)) f = raise e"
  by (rule ext) (simp add: bind_def lift_def raise_def)

lemma contains_PResp: "contains (PStr k) (PResp fs) = Inr (k \<in> fst ` set fs)"
  by (simp add: contains_def map_of_eq_None_iff)

text \<open>A read of a cached property: with no entry, the computation runs after the clock
  is read and its result is stored; with an entry and \<open>INFINITE\<close>, the entry is returned
  and only the clock is read.\<close>

lemma cached_property_miss:
  assumes "get_cache self name = None"
  shows "cached_property t name get_cache set_cache fget e self w =
           (case fget e self (tick w) of
              (Inl er, w') \<Rightarrow> (Inl er, w')
            | (Inr (r, self'), w') \<Rightarrow>
                (Inr (r, set_cache ((get_cache self')(name \<mapsto> (r, clock e (ticks w)))) self'), w'))"
  using assms
  by (simp add: cached_property_def bind_def time_time_def return_def split: prod.splits sum.splits)

lemma cached_property_hit:
  assumes "get_cache self name = Some (v, t0)"
  shows "cached_property INFINITE name get_cache set_cache fget e self w = (Inr (v, self), tick w)"
  using assms
  by (simp add: cached_property_def bind_def time_time_def return_def expired_def)

text \<open>The schema, once read, is in the cache: a second read returns the same value, and
  a read changes nothing of the application but this cache entry.\<close>

lemma APIConnection_call_eq:
  "APIConnection_call e i m v ps w =
     (api e (calls w) (APICall i m v ps), w\<lparr>calls := calls w @ [APICall i m v ps]\<rparr>)"
  by (simp add: APIConnection_call_def call_def)

lemma SteamApp_schema_cases:
  assumes "SteamApp_schema e self w = (Inr (schema, self'), w')"
  shows "app_cache self' ''_schema'' \<noteq> None \<and> map_option fst (app_cache self' ''_schema'') = Some schema \<and>
         app_id self' = app_id self \<and> app_userid self' = app_userid self \<and>
         app_owner self' = app_owner self \<and>
         (\<forall>k. k \<noteq> ''_schema'' \<longrightarrow> app_cache self' k = app_cache self k) \<and>
         ticks w' = Suc (ticks w) \<and>
         (calls w' = calls w \<or>
          calls w' = calls w @ [APICall ''ISteamUserStats'' ''GetSchemaForGame'' ''v2'' [(''appid'', app_id self)]])"
proof (cases "app_cache self ''_schema''")
  case None
  from cached_property_miss [of app_cache self "''_schema''" INFINITE set_app_cache SteamApp_schema_fget e w] None assms
  show ?thesis
    by (auto simp: SteamApp_schema_def SteamApp_schema_fget_def bind_def return_def
        APIConnection_call_eq set_app_cache_def tick_def split: sum.splits prod.splits)
next
  case (Some p)
  obtain v t0 where p: "p = (v, t0)" by (cases p)
  from cached_property_hit [of app_cache self "''_schema''" v t0 set_app_cache SteamApp_schema_fget e w]
    Some p assms
  show ?thesis
    by (auto simp: SteamApp_schema_def tick_def)
qed

lemma SteamApp_schema_again:
  assumes "SteamApp_schema e self w = (Inr (schema, self'), w')"
  shows "SteamApp_schema e self' w'' = (Inr (schema, self'), tick w'')"
proof -
  from SteamApp_schema_cases [OF assms]
  obtain t0 where "app_cache self' ''_schema'' = Some (schema, t0)"
    by (cases "app_cache self' ''_schema''") auto
  then show ?thesis
    unfolding SteamApp_schema_def by (rule cached_property_hit)
qed

lemma has_field_getattr: "has_field v k \<Longrightarrow> getattr v k = Inr (field_of v k)"
  by (simp add: has_field_def field_of_def split: sum.splits)

lemma getattr_contains: "getattr v k = Inr x \<Longrightarrow> contains (PStr k) v = Inr True"
  by (auto simp: getattr_def contains_def split: pyval.splits option.splits)

subsection \<open>The loops of achievements\<close>

lemma store_eq:
  "store e obj k v w =
     (Inr (obj\<lparr>ach_cache := (ach_cache obj)(k \<mapsto> (v, clock e (ticks w)))\<rparr>), tick w)"
  by (simp add: store_def bind_def time_time_def return_def set_ach_cache_def)

lemma achieved_names_spec:
  assumes "\<forall>a \<in> set items. has_field a ''achieved'' \<and> has_field a ''name''"
  shows "achieved_names items = Inr (achieved_set items)"
  using assms
  by (induction items) (simp_all add: achieved_set_def bind_e_def has_field_getattr)

lemma assign_percentage_gen:
  assumes "\<forall>g \<in> set gs. has_field g ''name'' \<and> has_field g ''percent''"
    and "getattr d ''name'' = Inr n"
  shows "assign_percentage d gs obj =
           Inr (obj\<lparr>unlock_percentage :=
                  (case filter (\<lambda>g. py_eq (field_of g ''name'') n) gs of
                     [] \<Rightarrow> unlock_percentage obj
                   | g # ms \<Rightarrow> field_of (last (g # ms)) ''percent'')\<rparr>)"
  using assms
proof (induction gs arbitrary: obj)
  case Nil
  then show ?case by simp
next
  case (Cons g gs)
  then show ?case
    by (simp add: bind_e_def has_field_getattr split: list.splits)
qed

lemma make_achievement_spec:
  assumes d: "has_field d ''name'' \<and> has_field d ''displayName'' \<and> has_field d ''hidden''"
    and ge: "global_entries gp = Inr gs"
    and gs: "\<forall>g \<in> set gs. has_field g ''name'' \<and> has_field g ''percent''"
  shows "make_achievement e self userid gp d w =
           (Inr \<lparr>ach_appid = app_id self, ach_id = field_of d ''name'',
                 ach_displayname = field_of d ''displayName'', ach_userid = userid,
                 unlock_percentage = matching_percentage gs (field_of d ''name''),
                 ach_cache = Map.empty(''is_hidden'' \<mapsto>
                   (PBool (\<not> py_eq (field_of d ''hidden'') (PInt 0)), clock e (ticks w)))\<rparr>,
            tick w)"
proof -
  from d have n: "getattr d ''name'' = Inr (field_of d ''name'')"
    by (simp add: has_field_getattr)
  show ?thesis
    using d
    by (simp add: make_achievement_def has_field_getattr ge store_eq lift_def bind_def
        assign_percentage_gen [OF gs n] SteamAchievement_init_def set_ach_cache_def
        matching_percentage_def return_def split: list.splits)
qed

lemma world_ticks_same [simp]: "w\<lparr>ticks := ticks w\<rparr> = (w::world)"
  by simp

lemma build_achievements_spec:
  assumes ds: "\<forall>d \<in> set defs. has_field d ''name'' \<and> has_field d ''displayName'' \<and> has_field d ''hidden''"
    and ge: "global_entries gp = Inr gs"
    and gs: "\<forall>g \<in> set gs. has_field g ''name'' \<and> has_field g ''percent''"
  shows "\<exists>objs. build_achievements e self userid gp defs acc w =
                  (Inr (acc @ objs), w\<lparr>ticks := ticks w + length defs\<rparr>) \<and>
           list_all2 (\<lambda>d a. ach_appid a = app_id self \<and> ach_id a = field_of d ''name'' \<and>
                        ach_displayname a = field_of d ''displayName'' \<and> ach_userid a = userid \<and>
                        unlock_percentage a = matching_percentage gs (field_of d ''name'') \<and>
                        (\<exists>t. ach_cache a = Map.empty(''is_hidden'' \<mapsto>
                           (PBool (\<not> py_eq (field_of d ''hidden'') (PInt 0)), t))))
             defs objs"
  using ds
proof (induction defs arbitrary: acc w)
  case Nil
  then show ?case by (simp add: return_def)
next
  case (Cons d rest)
  let ?obj = "\<lparr>ach_appid = app_id self, ach_id = field_of d ''name'',
                 ach_displayname = field_of d ''displayName'', ach_userid = userid,
                 unlock_percentage = matching_percentage gs (field_of d ''name''),
                 ach_cache = Map.empty(''is_hidden'' \<mapsto>
                   (PBool (\<not> py_eq (field_of d ''hidden'') (PInt 0)), clock e (ticks w)))\<rparr>"
  from Cons.prems have d: "has_field d ''name'' \<and> has_field d ''displayName'' \<and> has_field d ''hidden''"
    and rest: "\<forall>d \<in> set rest. has_field d ''name'' \<and> has_field d ''displayName'' \<and> has_field d ''hidden''"
    by simp_all
  have mk: "make_achievement e self userid gp d w = (Inr ?obj, tick w)"
    by (rule make_achievement_spec [OF d ge gs])
  from Cons.IH [OF rest, of "acc @ [?obj]" "tick w"]
  obtain objs where run: "build_achievements e self userid gp rest (acc @ [?obj]) (tick w) =
        (Inr ((acc @ [?obj]) @ objs), (tick w)\<lparr>ticks := ticks (tick w) + length rest\<rparr>)"
    and rel: "list_all2 (\<lambda>d a. ach_appid a = app_id self \<and> ach_id a = field_of d ''name'' \<and>
                        ach_displayname a = field_of d ''displayName'' \<and> ach_userid a = userid \<and>
                        unlock_percentage a = matching_percentage gs (field_of d ''name'') \<and>
                        (\<exists>t. ach_cache a = Map.empty(''is_hidden'' \<mapsto>
                           (PBool (\<not> py_eq (field_of d ''hidden'') (PInt 0)), t))))
             rest objs"
    by blast
  have "build_achievements e self userid gp (d # rest) acc w =
          (Inr (acc @ ?obj # objs), w\<lparr>ticks := ticks w + length (d # rest)\<rparr>)"
    using mk run by (simp add: bind_def tick_def)
  moreover have "list_all2 (\<lambda>d a. ach_appid a = app_id self \<and> ach_id a = field_of d ''name'' \<and>
                        ach_displayname a = field_of d ''displayName'' \<and> ach_userid a = userid \<and>
                        unlock_percentage a = matching_percentage gs (field_of d ''name'') \<and>
                        (\<exists>t. ach_cache a = Map.empty(''is_hidden'' \<mapsto>
                           (PBool (\<not> py_eq (field_of d ''hidden'') (PInt 0)), t))))
             (d # rest) (?obj # objs)"
    using rel by auto
  ultimately show ?case by blast
qed

lemma mark_achieved_spec:
  assumes mem: "\<And>k. contains k unlocks = Inr (mem k)"
  shows "\<exists>achs'. mark_achieved e unlocks achs w =
                   (Inr achs', w\<lparr>ticks := ticks w + length achs\<rparr>) \<and>
           list_all2 (\<lambda>a a'. \<exists>t. a' = a\<lparr>ach_cache := (ach_cache a)(''is_achieved'' \<mapsto>
                                       (PBool (mem (ach_id a)), t))\<rparr>) achs achs'"
proof (induction achs arbitrary: w)
  case Nil
  then show ?case by (simp add: return_def)
next
  case (Cons a rest)
  let ?a' = "a\<lparr>ach_cache := (ach_cache a)(''is_achieved'' \<mapsto>
                (PBool (mem (ach_id a)), clock e (ticks w)))\<rparr>"
  from Cons.IH [of "tick w"]
  obtain rest' where run: "mark_achieved e unlocks rest (tick w) =
        (Inr rest', (tick w)\<lparr>ticks := ticks (tick w) + length rest\<rparr>)"
    and rel: "list_all2 (\<lambda>a a'. \<exists>t. a' = a\<lparr>ach_cache := (ach_cache a)(''is_achieved'' \<mapsto>
                                       (PBool (mem (ach_id a)), t))\<rparr>) rest rest'"
    by blast
  have "mark_achieved e unlocks (a # rest) w =
          (Inr (?a' # rest'), w\<lparr>ticks := ticks w + length (a # rest)\<rparr>)"
    using run
    by (simp add: bind_def lift_def mem SteamAchievement_apiname_def store_eq return_def tick_def)
  moreover have "list_all2 (\<lambda>a a'. \<exists>t. a' = a\<lparr>ach_cache := (ach_cache a)(''is_achieved'' \<mapsto>
                                       (PBool (mem (ach_id a)), t))\<rparr>) (a # rest) (?a' # rest')"
    using rel by auto
  ultimately show ?case by blast
qed

lemma fetch_unlocks_unbound:
  "app_userid self = PNone \<Longrightarrow> fetch_unlocks e self w = (Inr (PNone, PNone), w)"
  by (simp add: fetch_unlocks_def return_def)

lemma fetch_unlocks_listed:
  assumes bound: "app_userid self \<noteq> PNone"
    and stats: "APIConnection_call e ''ISteamUserStats'' ''GetUserStatsForGame'' ''v2''
                  [(''appid'', app_id self), (''steamid'', app_userid self)] w1 = (Inr stats, w2)"
    and ps: "getattr stats ''playerstats'' = Inr playerstats"
    and its: "bind_e (getattr playerstats ''achievements'') iterate = Inr items"
    and wf: "\<forall>a \<in> set items. has_field a ''achieved'' \<and> has_field a ''name''"
  shows "fetch_unlocks e self w1 = (Inr (app_userid self, PList (achieved_set items)), w2)"
proof -
  from its obtain l where l: "getattr playerstats ''achievements'' = Inr l" and it: "iterate l = Inr items"
    by (cases "getattr playerstats ''achievements''") (simp_all add: bind_e_def)
  show ?thesis
    using bound
    by (simp add: fetch_unlocks_def bind_def stats ps lift_def getattr_contains [OF l] l it
        achieved_names_spec [OF wf] return_def)
qed

lemma fetch_unlocks_absent:
  assumes bound: "app_userid self \<noteq> PNone"
    and stats: "APIConnection_call e ''ISteamUserStats'' ''GetUserStatsForGame'' ''v2''
                  [(''appid'', app_id self), (''steamid'', app_userid self)] w1 = (Inr stats, w2)"
    and ps: "getattr stats ''playerstats'' = Inr playerstats"
    and absent: "contains (PStr ''achievements'') playerstats = Inr False"
  shows "fetch_unlocks e self w1 = (Inr (app_userid self, stats), w2)"
  using bound
  by (simp add: fetch_unlocks_def bind_def stats ps lift_def absent return_def)

lemma schema_achievements_game:
  assumes "schema_achievements schema = Inr defs"
  shows "\<exists>game. getattr_c schema ''game'' = Inr game \<and>
                contains (PStr ''availableGameStats'') game = Inr True"
proof -
  from assms obtain game where g: "getattr_c schema ''game'' = Inr game"
    by (cases "getattr_c schema ''game''") (simp_all add: schema_achievements_def bind_e_def)
  with assms obtain stats where "getattr game ''availableGameStats'' = Inr stats"
    by (cases "getattr game ''availableGameStats''") (simp_all add: schema_achievements_def bind_e_def)
  then have "contains (PStr ''availableGameStats'') game = Inr True"
    by (rule getattr_contains)
  with g show ?thesis by blast
qed

text \<open>The body of achievements up to the construction loop.\<close>

lemma achievements_fget_built:
  assumes global: "APIConnection_call e ''ISteamUserStats'' ''GetGlobalAchievementPercentagesForApp''
                   ''v0002'' [(''gameid'', app_id self)] w = (Inr gp, w1)"
    and user: "fetch_unlocks e self w1 = (Inr (userid, unlocks), w2)"
    and schema: "SteamApp_schema e self w2 = (Inr (schema, self'), w3)"
    and defs: "schema_achievements schema = Inr defs"
    and ds: "\<forall>d \<in> set defs. has_field d ''name'' \<and> has_field d ''displayName'' \<and> has_field d ''hidden''"
    and ge: "global_entries gp = Inr gs"
    and gs: "\<forall>g \<in> set gs. has_field g ''name'' \<and> has_field g ''percent''"
  shows "\<exists>objs.
           list_all2 (\<lambda>d a. ach_appid a = app_id self \<and> ach_id a = field_of d ''name'' \<and>
                        ach_displayname a = field_of d ''displayName'' \<and> ach_userid a = userid \<and>
                        unlock_percentage a = matching_percentage gs (field_of d ''name'') \<and>
                        (\<exists>t. ach_cache a = Map.empty(''is_hidden'' \<mapsto>
                           (PBool (\<not> py_eq (field_of d ''hidden'') (PInt 0)), t))))
             defs objs \<and>
           SteamApp_achievements_fget e self w =
             (if unlocks \<noteq> PNone then
                bind (mark_achieved e unlocks objs) (\<lambda>l. return (CAchs l, self'))
                  (w3\<lparr>ticks := Suc (ticks w3) + length defs\<rparr>)
              else (Inr (CAchs objs, self'), w3\<lparr>ticks := Suc (ticks w3) + length defs\<rparr>))"
proof -
  from schema_achievements_game [OF defs]
  obtain game where game: "getattr_c schema ''game'' = Inr game"
    and has: "contains (PStr ''availableGameStats'') game = Inr True"
    by blast
  have id: "app_id self' = app_id self"
    using SteamApp_schema_cases [OF schema] by simp
  from build_achievements_spec [OF ds ge gs, where e = e and self = self' and userid = userid
      and acc = "[]" and w = "tick w3"]
  obtain objs where run: "build_achievements e self' userid gp defs [] (tick w3) =
        (Inr objs, w3\<lparr>ticks := Suc (ticks w3) + length defs\<rparr>)"
    and rel: "list_all2 (\<lambda>d a. ach_appid a = app_id self \<and> ach_id a = field_of d ''name'' \<and>
                        ach_displayname a = field_of d ''displayName'' \<and> ach_userid a = userid \<and>
                        unlock_percentage a = matching_percentage gs (field_of d ''name'') \<and>
                        (\<exists>t. ach_cache a = Map.empty(''is_hidden'' \<mapsto>
                           (PBool (\<not> py_eq (field_of d ''hidden'') (PInt 0)), t))))
             defs objs"
    by (auto simp: id tick_def)
  have "SteamApp_achievements_fget e self w =
             (if unlocks \<noteq> PNone then
                bind (mark_achieved e unlocks objs) (\<lambda>l. return (CAchs l, self'))
                  (w3\<lparr>ticks := Suc (ticks w3) + length defs\<rparr>)
              else (Inr (CAchs objs, self'), w3\<lparr>ticks := Suc (ticks w3) + length defs\<rparr>))"
    unfolding SteamApp_achievements_fget_def
    by (simp add: bind_def global user schema SteamApp_schema_again [OF schema] game has defs
        lift_def run return_def)
  with rel show ?thesis by blast
qed

lemma achievements_marked:
  assumes miss: "app_cache self ''achievements'' = None"
    and global: "APIConnection_call e ''ISteamUserStats'' ''GetGlobalAchievementPercentagesForApp''
                   ''v0002'' [(''gameid'', app_id self)] (tick w) = (Inr gp, w1)"
    and user: "fetch_unlocks e self w1 = (Inr (userid, unlocks), w2)"
    and nn: "unlocks \<noteq> PNone"
    and mem: "\<And>k. contains k unlocks = Inr (mem k)"
    and schema: "SteamApp_schema e self w2 = (Inr (schema, self'), w3)"
    and defs: "schema_achievements schema = Inr defs"
    and ds: "\<forall>d \<in> set defs. has_field d ''name'' \<and> has_field d ''displayName'' \<and> has_field d ''hidden''"
    and ge: "global_entries gp = Inr gs"
    and gs: "\<forall>g \<in> set gs. has_field g ''name'' \<and> has_field g ''percent''"
  shows "\<exists>achs self'' w'.
           SteamApp_achievements e self w = (Inr (CAchs achs, self''), w') \<and>
           calls w' = calls w3 \<and> length achs = length defs \<and>
           (\<forall>i < length defs.
              ach_id (achs ! i) = field_of (defs ! i) ''name'' \<and>
              ach_userid (achs ! i) = userid \<and>
              unlock_percentage (achs ! i) = matching_percentage gs (ach_id (achs ! i)) \<and>
              cached (achs ! i) ''is_hidden'' =
                Some (PBool (\<not> py_eq (field_of (defs ! i) ''hidden'') (PInt 0))) \<and>
              cached (achs ! i) ''is_achieved'' = Some (PBool (mem (ach_id (achs ! i)))))"
proof -
  let ?R = "\<lambda>d a. ach_appid a = app_id self \<and> ach_id a = field_of d ''name'' \<and>
                        ach_displayname a = field_of d ''displayName'' \<and> ach_userid a = userid \<and>
                        unlock_percentage a = matching_percentage gs (field_of d ''name'') \<and>
                        (\<exists>t. ach_cache a = Map.empty(''is_hidden'' \<mapsto>
                           (PBool (\<not> py_eq (field_of d ''hidden'') (PInt 0)), t)))"
  let ?Q = "\<lambda>a a'. \<exists>t. a' = a\<lparr>ach_cache := (ach_cache a)(''is_achieved'' \<mapsto>
                                       (PBool (mem (ach_id a)), t))\<rparr>"
  let ?w4 = "w3\<lparr>ticks := Suc (ticks w3) + length defs\<rparr>"
  from achievements_fget_built [OF global user schema defs ds ge gs] nn
  obtain objs where rel: "list_all2 ?R defs objs"
    and run: "SteamApp_achievements_fget e self (tick w) =
                bind (mark_achieved e unlocks objs) (\<lambda>l. return (CAchs l, self')) ?w4"
    by auto
  from mark_achieved_spec [of unlocks mem e objs ?w4, OF mem]
  obtain achs where m: "mark_achieved e unlocks objs ?w4 =
        (Inr achs, ?w4\<lparr>ticks := ticks ?w4 + length objs\<rparr>)"
    and rel2: "list_all2 ?Q objs achs"
    by blast
  let ?w5 = "?w4\<lparr>ticks := ticks ?w4 + length objs\<rparr>"
  have fget: "SteamApp_achievements_fget e self (tick w) = (Inr (CAchs achs, self'), ?w5)"
    using run m by (simp add: bind_def return_def)
  have res: "SteamApp_achievements e self w =
          (Inr (CAchs achs, set_app_cache ((app_cache self')(''achievements'' \<mapsto>
                  (CAchs achs, clock e (ticks w)))) self'), ?w5)"
    unfolding SteamApp_achievements_def
    using miss fget by (simp add: cached_property_miss [of app_cache])
  have len: "length objs = length defs" "length achs = length objs"
    using rel rel2 by (simp_all add: list_all2_lengthD)
  have each: "ach_id (achs ! i) = field_of (defs ! i) ''name'' \<and>
              ach_userid (achs ! i) = userid \<and>
              unlock_percentage (achs ! i) = matching_percentage gs (ach_id (achs ! i)) \<and>
              cached (achs ! i) ''is_hidden'' =
                Some (PBool (\<not> py_eq (field_of (defs ! i) ''hidden'') (PInt 0))) \<and>
              cached (achs ! i) ''is_achieved'' = Some (PBool (mem (ach_id (achs ! i))))"
    if i: "i < length defs" for i
  proof -
    from rel i have r: "?R (defs ! i) (objs ! i)"
      by (rule list_all2_nthD)
    from i len have "i < length objs" by simp
    with rel2 have q: "?Q (objs ! i) (achs ! i)"
      by (rule list_all2_nthD)
    from r q show ?thesis
      by (auto simp: cached_def)
  qed
  show ?thesis
  proof (intro exI conjI)
    show "SteamApp_achievements e self w =
          (Inr (CAchs achs, set_app_cache ((app_cache self')(''achievements'' \<mapsto>
                  (CAchs achs, clock e (ticks w)))) self'), ?w5)"
      by (rule res)
    show "calls ?w5 = calls w3" by simp
    show "length achs = length defs" using len by simp
    show "\<forall>i < length defs.
              ach_id (achs ! i) = field_of (defs ! i) ''name'' \<and>
              ach_userid (achs ! i) = userid \<and>
              unlock_percentage (achs ! i) = matching_percentage gs (ach_id (achs ! i)) \<and>
              cached (achs ! i) ''is_hidden'' =
                Some (PBool (\<not> py_eq (field_of (defs ! i) ''hidden'') (PInt 0))) \<and>
              cached (achs ! i) ''is_achieved'' = Some (PBool (mem (ach_id (achs ! i))))"
      using each by blast
  qed
qed

lemma achievements_unmarked:
  assumes miss: "app_cache self ''achievements'' = None"
    and global: "APIConnection_call e ''ISteamUserStats'' ''GetGlobalAchievementPercentagesForApp''
                   ''v0002'' [(''gameid'', app_id self)] (tick w) = (Inr gp, w1)"
    and user: "fetch_unlocks e self w1 = (Inr (userid, PNone), w2)"
    and schema: "SteamApp_schema e self w2 = (Inr (schema, self'), w3)"
    and defs: "schema_achievements schema = Inr defs"
    and ds: "\<forall>d \<in> set defs. has_field d ''name'' \<and> has_field d ''displayName'' \<and> has_field d ''hidden''"
    and ge: "global_entries gp = Inr gs"
    and gs: "\<forall>g \<in> set gs. has_field g ''name'' \<and> has_field g ''percent''"
  shows "\<exists>achs self'' w'.
           SteamApp_achievements e self w = (Inr (CAchs achs, self''), w') \<and>
           calls w' = calls w3 \<and> length achs = length defs \<and>
           (\<forall>i < length defs.
              ach_id (achs ! i) = field_of (defs ! i) ''name'' \<and>
              ach_userid (achs ! i) = userid \<and>
              unlock_percentage (achs ! i) = matching_percentage gs (ach_id (achs ! i)) \<and>
              cached (achs ! i) ''is_hidden'' =
                Some (PBool (\<not> py_eq (field_of (defs ! i) ''hidden'') (PInt 0))) \<and>
              (\<forall>k. k \<noteq> ''is_hidden'' \<longrightarrow> ach_cache (achs ! i) k = None))"
proof -
  let ?R = "\<lambda>d a. ach_appid a = app_id self \<and> ach_id a = field_of d ''name'' \<and>
                        ach_displayname a = field_of d ''displayName'' \<and> ach_userid a = userid \<and>
                        unlock_percentage a = matching_percentage gs (field_of d ''name'') \<and>
                        (\<exists>t. ach_cache a = Map.empty(''is_hidden'' \<mapsto>
                           (PBool (\<not> py_eq (field_of d ''hidden'') (PInt 0)), t)))"
  let ?w4 = "w3\<lparr>ticks := Suc (ticks w3) + length defs\<rparr>"
  from achievements_fget_built [OF global user schema defs ds ge gs]
  obtain achs where rel: "list_all2 ?R defs achs"
    and fget: "SteamApp_achievements_fget e self (tick w) = (Inr (CAchs achs, self'), ?w4)"
    by auto
  have res: "SteamApp_achievements e self w =
          (Inr (CAchs achs, set_app_cache ((app_cache self')(''achievements'' \<mapsto>
                  (CAchs achs, clock e (ticks w)))) self'), ?w4)"
    unfolding SteamApp_achievements_def
    using miss fget by (simp add: cached_property_miss [of app_cache])
  have len: "length achs = length defs"
    using rel by (simp add: list_all2_lengthD)
  have each: "ach_id (achs ! i) = field_of (defs ! i) ''name'' \<and>
              ach_userid (achs ! i) = userid \<and>
              unlock_percentage (achs ! i) = matching_percentage gs (ach_id (achs ! i)) \<and>
              cached (achs ! i) ''is_hidden'' =
                Some (PBool (\<not> py_eq (field_of (defs ! i) ''hidden'') (PInt 0))) \<and>
              (\<forall>k. k \<noteq> ''is_hidden'' \<longrightarrow> ach_cache (achs ! i) k = None)"
    if i: "i < length defs" for i
  proof -
    from rel i have r: "?R (defs ! i) (achs ! i)"
      by (rule list_all2_nthD)
    then show ?thesis
      by (auto simp: cached_def)
  qed
  show ?thesis
  proof (intro exI conjI)
    show "SteamApp_achievements e self w =
          (Inr (CAchs achs, set_app_cache ((app_cache self')(''achievements'' \<mapsto>
                  (CAchs achs, clock e (ticks w)))) self'), ?w4)"
      by (rule res)
    show "calls ?w4 = calls w3" by simp
    show "length achs = length defs" using len by simp
    show "\<forall>i < length defs.
              ach_id (achs ! i) = field_of (defs ! i) ''name'' \<and>
              ach_userid (achs ! i) = userid \<and>
              unlock_percentage (achs ! i) = matching_percentage gs (ach_id (achs ! i)) \<and>
              cached (achs ! i) ''is_hidden'' =
                Some (PBool (\<not> py_eq (field_of (defs ! i) ''hidden'') (PInt 0))) \<and>
              (\<forall>k. k \<noteq> ''is_hidden'' \<longrightarrow> ach_cache (achs ! i) k = None)"
      using each by blast
  qed
qed

section \<open>Construction from a response\<close>

text \<open>
  C6. When \<open>'appid' in api_json\<close> is false (for a response object, by
  \<open>contains_PResp\<close>: it has no field \<open>appid\<close>), \<open>from_api_response\<close> raises the
  \<open>ValueError\<close> at once: no instance is returned, the clock is not read and no request
  is made.
\<close>

theorem from_api_response_requires_appid:
  assumes "contains (PStr ''appid'') api_json = Inr False"
  shows "from_api_response e api_json associated_userid w =
           (Inl (ValueError ''An app ID is required to create a SteamApp object.''), w)"
  using assms by (simp add: from_api_response_def raise_def)

theorem from_api_response_requires_appid_witness:
  "contains (PStr ''appid'') (PResp [(''name'', PStr ''Portal'')]) = Inr False \<and>
   from_api_response env0 (PResp [(''name'', PStr ''Portal'')]) PNone w0 =
     (Inl (ValueError ''An app ID is required to create a SteamApp object.''), w0)"
proof -
  have h: "contains (PStr ''appid'') (PResp [(''name'', PStr ''Portal'')]) = Inr False"
    by (simp add: contains_def)
  show ?thesis
    using h from_api_response_requires_appid [OF h] by simp
qed

lemma contains_PList: "contains k (PList names) = Inr (list_ex (\<lambda>n. py_eq n k) names)"
  by (simp add: contains_def)

section \<open>Achievements of an application\<close>

text \<open>
  C1. Take an application with a user bound and no cached \<open>achievements\<close>. Let the
  global percentages answer with the entries \<open>gs\<close>, the user's statistics carry the
  list \<open>items\<close> under \<open>playerstats.achievements\<close>, and the schema list the
  definitions \<open>defs\<close> (every record with the fields the code reads). Then
  \<open>achievements\<close> returns one achievement per definition, in the order of the schema;
  its id is the definition's \<open>name\<close>; its \<open>unlock_percentage\<close> is the \<open>percent\<close> of
  the global entry of that name (of the last one, should the name be repeated), and
  \<open>0.0\<close> when there is none; and its cache holds under \<open>is_achieved\<close> whether the id
  is among the names the user has achieved. The instance that follows it is the example
  of the specification: achievements A and B, percentages 10.0 and 20.0, achieved set {A}.
\<close>

theorem achievements_merge:
  assumes miss: "app_cache self ''achievements'' = None"
    and bound: "app_userid self \<noteq> PNone"
    and global: "APIConnection_call e ''ISteamUserStats'' ''GetGlobalAchievementPercentagesForApp''
                   ''v0002'' [(''gameid'', app_id self)] (tick w) = (Inr gp, w1)"
    and ge: "global_entries gp = Inr gs"
    and gs: "\<forall>g \<in> set gs. has_field g ''name'' \<and> has_field g ''percent''"
    and stats: "APIConnection_call e ''ISteamUserStats'' ''GetUserStatsForGame'' ''v2''
                  [(''appid'', app_id self), (''steamid'', app_userid self)] w1 = (Inr stats, w2)"
    and ps: "getattr stats ''playerstats'' = Inr playerstats"
    and its: "bind_e (getattr playerstats ''achievements'') iterate = Inr items"
    and wf: "\<forall>a \<in> set items. has_field a ''achieved'' \<and> has_field a ''name''"
    and schema: "SteamApp_schema e self w2 = (Inr (schema, self'), w3)"
    and defs: "schema_achievements schema = Inr defs"
    and ds: "\<forall>d \<in> set defs. has_field d ''name'' \<and> has_field d ''displayName'' \<and> has_field d ''hidden''"
  shows "\<exists>achs self'' w'.
           SteamApp_achievements e self w = (Inr (CAchs achs, self''), w') \<and>
           length achs = length defs \<and>
           (\<forall>i < length defs.
              ach_id (achs ! i) = field_of (defs ! i) ''name'' \<and>
              unlock_percentage (achs ! i) = matching_percentage gs (ach_id (achs ! i)) \<and>
              cached (achs ! i) ''is_achieved'' =
                Some (PBool (list_ex (\<lambda>n. py_eq n (ach_id (achs ! i))) (achieved_set items))))"
proof -
  have user: "fetch_unlocks e self w1 = (Inr (app_userid self, PList (achieved_set items)), w2)"
    by (rule fetch_unlocks_listed [OF bound stats ps its wf])
  from achievements_marked [OF miss global user _ contains_PList schema defs ds ge gs]
  show ?thesis by blast
qed

theorem achievements_merge_witness:
  "\<exists>achs self' w'.
     SteamApp_achievements (ex_env ex_schema ex_stats) (ex_app (PInt 7)) w0 =
       (Inr (CAchs achs, self'), w') \<and>
     length achs = 2 \<and>
     ach_id (achs ! 0) = PStr ''A'' \<and> unlock_percentage (achs ! 0) = PFloat 10 \<and>
     cached (achs ! 0) ''is_achieved'' = Some (PBool True) \<and>
     ach_id (achs ! 1) = PStr ''B'' \<and> unlock_percentage (achs ! 1) = PFloat 20 \<and>
     cached (achs ! 1) ''is_achieved'' = Some (PBool False)"
proof -
  let ?e = "ex_env ex_schema ex_stats"
  let ?self = "ex_app (PInt 7)"
  let ?G = "APICall ''ISteamUserStats'' ''GetGlobalAchievementPercentagesForApp'' ''v0002''
              [(''gameid'', PInt 440)]"
  let ?U = "APICall ''ISteamUserStats'' ''GetUserStatsForGame'' ''v2''
              [(''appid'', PInt 440), (''steamid'', PInt 7)]"
  let ?S = "APICall ''ISteamUserStats'' ''GetSchemaForGame'' ''v2'' [(''appid'', PInt 440)]"
  let ?gs = "[PResp [(''name'', PStr ''A''), (''percent'', PFloat 10)],
              PResp [(''name'', PStr ''B''), (''percent'', PFloat 20)]]"
  let ?items = "[PResp [(''name'', PStr ''A''), (''achieved'', PInt 1)]]"
  let ?ps = "PResp [(''steamID'', PStr ''7''), (''gameName'', PStr ''Example''),
       (''achievements'', PList ?items)]"
  let ?defs = "[PResp [(''name'', PStr ''A''), (''defaultvalue'', PInt 0),
                  (''displayName'', PStr ''First''), (''hidden'', PInt 0)],
           PResp [(''name'', PStr ''B''), (''defaultvalue'', PInt 0),
                  (''displayName'', PStr ''Second''), (''hidden'', PInt 1)]]"
  let ?self' = "set_app_cache ((app_cache ?self)(''_schema'' \<mapsto> (CVal ex_schema, 1))) ?self"
  have miss: "app_cache ?self ''achievements'' = None"
    by (simp add: ex_app_def)
  have bound: "app_userid ?self \<noteq> PNone"
    by (simp add: ex_app_def)
  have global: "APIConnection_call ?e ''ISteamUserStats'' ''GetGlobalAchievementPercentagesForApp''
                   ''v0002'' [(''gameid'', app_id ?self)] (tick w0) =
                (Inr ex_global, \<lparr>calls = [?G], ticks = 1\<rparr>)"
    by (simp add: APIConnection_call_eq ex_env_def ex_app_def w0_def tick_def)
  have ge: "global_entries ex_global = Inr ?gs"
    by (simp add: global_entries_def ex_global_def bind_e_def getattr_def iterate_def)
  have gs: "\<forall>g \<in> set ?gs. has_field g ''name'' \<and> has_field g ''percent''"
    by (simp add: has_field_def getattr_def)
  have stats: "APIConnection_call ?e ''ISteamUserStats'' ''GetUserStatsForGame'' ''v2''
                  [(''appid'', app_id ?self), (''steamid'', app_userid ?self)]
                  \<lparr>calls = [?G], ticks = 1\<rparr> =
               (Inr ex_stats, \<lparr>calls = [?G, ?U], ticks = 1\<rparr>)"
    by (simp add: APIConnection_call_eq ex_env_def ex_app_def)
  have ps: "getattr ex_stats ''playerstats'' = Inr ?ps"
    by (simp add: getattr_def ex_stats_def)
  have its: "bind_e (getattr ?ps ''achievements'') iterate = Inr ?items"
    by (simp add: getattr_def bind_e_def iterate_def)
  have wf: "\<forall>a \<in> set ?items. has_field a ''achieved'' \<and> has_field a ''name''"
    by (simp add: has_field_def getattr_def)
  have schema: "SteamApp_schema ?e ?self \<lparr>calls = [?G, ?U], ticks = 1\<rparr> =
                  (Inr (CVal ex_schema, ?self'), \<lparr>calls = [?G, ?U, ?S], ticks = 2\<rparr>)"
    by (simp add: SteamApp_schema_def cached_property_miss [of app_cache] ex_app_def
        SteamApp_schema_fget_def bind_def APIConnection_call_eq ex_env_def tick_def return_def)
  have defs: "schema_achievements (CVal ex_schema) = Inr ?defs"
    by (simp add: schema_achievements_def getattr_c_def getattr_def ex_schema_def bind_e_def
        iterate_def)
  have ds: "\<forall>d \<in> set ?defs. has_field d ''name'' \<and> has_field d ''displayName'' \<and> has_field d ''hidden''"
    by (simp add: has_field_def getattr_def)
  from achievements_merge [OF miss bound global ge gs stats ps its wf schema defs ds]
  obtain achs self'' w' where
    run: "SteamApp_achievements ?e ?self w0 = (Inr (CAchs achs, self''), w')"
    and len: "length achs = length ?defs"
    and each: "\<forall>i < length ?defs.
              ach_id (achs ! i) = field_of (?defs ! i) ''name'' \<and>
              unlock_percentage (achs ! i) = matching_percentage ?gs (ach_id (achs ! i)) \<and>
              cached (achs ! i) ''is_achieved'' =
                Some (PBool (list_ex (\<lambda>n. py_eq n (ach_id (achs ! i))) (achieved_set ?items)))"
    by blast
  from each have a: "ach_id (achs ! 0) = PStr ''A''" and b: "ach_id (achs ! 1) = PStr ''B''"
    by (simp_all add: field_of_def getattr_def)
  from each have
    "unlock_percentage (achs ! 0) = matching_percentage ?gs (ach_id (achs ! 0))"
    "unlock_percentage (achs ! 1) = matching_percentage ?gs (ach_id (achs ! 1))"
    "cached (achs ! 0) ''is_achieved'' =
       Some (PBool (list_ex (\<lambda>n. py_eq n (ach_id (achs ! 0))) (achieved_set ?items)))"
    "cached (achs ! 1) ''is_achieved'' =
       Some (PBool (list_ex (\<lambda>n. py_eq n (ach_id (achs ! 1))) (achieved_set ?items)))"
    by simp_all
  then have vals: "unlock_percentage (achs ! 0) = PFloat 10" "unlock_percentage (achs ! 1) = PFloat 20"
    "cached (achs ! 0) ''is_achieved'' = Some (PBool True)"
    "cached (achs ! 1) ''is_achieved'' = Some (PBool False)"
    using a b by (simp_all add: matching_percentage_def achieved_set_def field_of_def getattr_def)
  from run len a b vals show ?thesis
    by (intro exI conjI) simp_all
qed

text \<open>
  C2. When the remote calls before it answer and the \<open>game\<close> section of the schema has
  no \<open>availableGameStats\<close>, \<open>achievements\<close> returns the empty list and raises
  nothing. The world it leaves is the one right after the schema was read: the clock is
  not read again, so nothing was stored on any achievement, and no further request is
  made. The empty list is what the cache of the application keeps.
\<close>

theorem achievements_hidden_app:
  assumes miss: "app_cache self ''achievements'' = None"
    and global: "APIConnection_call e ''ISteamUserStats'' ''GetGlobalAchievementPercentagesForApp''
                   ''v0002'' [(''gameid'', app_id self)] (tick w) = (Inr global_percentages, w1)"
    and user: "fetch_unlocks e self w1 = (Inr u, w2)"
    and schema: "SteamApp_schema e self w2 = (Inr (schema, self'), w3)"
    and game: "getattr_c schema ''game'' = Inr game"
    and lacks: "contains (PStr ''availableGameStats'') game = Inr False"
  shows "SteamApp_achievements e self w =
           (Inr (CAchs [],
                 set_app_cache ((app_cache self')(''achievements'' \<mapsto> (CAchs [], clock e (ticks w)))) self'),
            w3)"
proof -
  have "SteamApp_achievements_fget e self (tick w) = (Inr (CAchs [], self'), w3)"
    unfolding SteamApp_achievements_fget_def
    by (cases u) (simp add: bind_def global user schema game lacks return_def lift_def)
  then show ?thesis
    unfolding SteamApp_achievements_def
    using miss by (simp add: cached_property_miss [of app_cache])
qed

theorem achievements_hidden_app_witness:
  "\<exists>self'. SteamApp_achievements (ex_env ex_schema_hidden ex_stats) (ex_app (PInt 7)) w0 =
     (Inr (CAchs [], self'),
      \<lparr>calls = [APICall ''ISteamUserStats'' ''GetGlobalAchievementPercentagesForApp'' ''v0002''
                  [(''gameid'', PInt 440)],
                APICall ''ISteamUserStats'' ''GetUserStatsForGame'' ''v2''
                  [(''appid'', PInt 440), (''steamid'', PInt 7)],
                APICall ''ISteamUserStats'' ''GetSchemaForGame'' ''v2'' [(''appid'', PInt 440)]],
        ticks = 2\<rparr>)"
proof -
  let ?e = "ex_env ex_schema_hidden ex_stats"
  let ?self = "ex_app (PInt 7)"
  let ?G = "APICall ''ISteamUserStats'' ''GetGlobalAchievementPercentagesForApp'' ''v0002''
              [(''gameid'', PInt 440)]"
  let ?U = "APICall ''ISteamUserStats'' ''GetUserStatsForGame'' ''v2''
              [(''appid'', PInt 440), (''steamid'', PInt 7)]"
  let ?S = "APICall ''ISteamUserStats'' ''GetSchemaForGame'' ''v2'' [(''appid'', PInt 440)]"
  let ?self' = "set_app_cache ((app_cache ?self)(''_schema'' \<mapsto> (CVal ex_schema_hidden, 1))) ?self"
  have miss: "app_cache ?self ''achievements'' = None"
    by (simp add: ex_app_def)
  have global: "APIConnection_call ?e ''ISteamUserStats'' ''GetGlobalAchievementPercentagesForApp''
                   ''v0002'' [(''gameid'', app_id ?self)] (tick w0) =
                (Inr ex_global, \<lparr>calls = [?G], ticks = 1\<rparr>)"
    by (simp add: APIConnection_call_eq ex_env_def ex_app_def w0_def tick_def)
  have user: "fetch_unlocks ?e ?self \<lparr>calls = [?G], ticks = 1\<rparr> =
                (Inr (PInt 7, PList [PStr ''A'']), \<lparr>calls = [?G, ?U], ticks = 1\<rparr>)"
    by (simp add: fetch_unlocks_def ex_app_def bind_def APIConnection_call_eq ex_env_def lift_def
        ex_stats_def getattr_def contains_def iterate_def bind_e_def return_def)
  have schema: "SteamApp_schema ?e ?self \<lparr>calls = [?G, ?U], ticks = 1\<rparr> =
                  (Inr (CVal ex_schema_hidden, ?self'), \<lparr>calls = [?G, ?U, ?S], ticks = 2\<rparr>)"
    by (simp add: SteamApp_schema_def cached_property_miss [of app_cache] ex_app_def
        SteamApp_schema_fget_def bind_def APIConnection_call_eq ex_env_def tick_def return_def)
  have game: "getattr_c (CVal ex_schema_hidden) ''game'' = Inr (PResp [])"
    by (simp add: getattr_c_def getattr_def ex_schema_hidden_def)
  have lacks: "contains (PStr ''availableGameStats'') (PResp []) = Inr False"
    by (simp add: contains_def)
  from achievements_hidden_app [OF miss global user schema game lacks]
  show ?thesis by blast
qed

text \<open>
  C8. With no user bound, \<open>achievements\<close> goes from the global percentages straight to
  the schema: the requests it makes are the one for the global percentages and, unless
  the schema is cached, the one for the schema, and none for the user's statistics.
  No achievement it returns has an entry \<open>is_achieved\<close> in its cache, and none has a
  user.
\<close>

theorem achievements_without_user:
  assumes miss: "app_cache self ''achievements'' = None"
    and unbound: "app_userid self = PNone"
    and global: "APIConnection_call e ''ISteamUserStats'' ''GetGlobalAchievementPercentagesForApp''
                   ''v0002'' [(''gameid'', app_id self)] (tick w) = (Inr gp, w1)"
    and ge: "global_entries gp = Inr gs"
    and gs: "\<forall>g \<in> set gs. has_field g ''name'' \<and> has_field g ''percent''"
    and schema: "SteamApp_schema e self w1 = (Inr (schema, self'), w2)"
    and defs: "schema_achievements schema = Inr defs"
    and ds: "\<forall>d \<in> set defs. has_field d ''name'' \<and> has_field d ''displayName'' \<and> has_field d ''hidden''"
  shows "\<exists>achs self'' w'.
           SteamApp_achievements e self w = (Inr (CAchs achs, self''), w') \<and>
           length achs = length defs \<and>
           (\<forall>a \<in> set achs. ach_cache a ''is_achieved'' = None \<and> ach_userid a = PNone) \<and>
           (calls w' = calls w @
              [APICall ''ISteamUserStats'' ''GetGlobalAchievementPercentagesForApp'' ''v0002''
                 [(''gameid'', app_id self)]] \<or>
            calls w' = calls w @
              [APICall ''ISteamUserStats'' ''GetGlobalAchievementPercentagesForApp'' ''v0002''
                 [(''gameid'', app_id self)],
               APICall ''ISteamUserStats'' ''GetSchemaForGame'' ''v2'' [(''appid'', app_id self)]])"
proof -
  have user: "fetch_unlocks e self w1 = (Inr (PNone, PNone), w1)"
    by (rule fetch_unlocks_unbound [OF unbound])
  from achievements_unmarked [OF miss global user schema defs ds ge gs]
  obtain achs self'' w' where
    run: "SteamApp_achievements e self w = (Inr (CAchs achs, self''), w')"
    and calls: "calls w' = calls w2"
    and len: "length achs = length defs"
    and each: "\<forall>i < length defs.
              ach_id (achs ! i) = field_of (defs ! i) ''name'' \<and>
              ach_userid (achs ! i) = PNone \<and>
              unlock_percentage (achs ! i) = matching_percentage gs (ach_id (achs ! i)) \<and>
              cached (achs ! i) ''is_hidden'' =
                Some (PBool (\<not> py_eq (field_of (defs ! i) ''hidden'') (PInt 0))) \<and>
              (\<forall>k. k \<noteq> ''is_hidden'' \<longrightarrow> ach_cache (achs ! i) k = None)"
    by (elim exE conjE)
  have none: "\<forall>a \<in> set achs. ach_cache a ''is_achieved'' = None \<and> ach_userid a = PNone"
  proof
    fix a assume "a \<in> set achs"
    then obtain i where i: "i < length defs" and a: "a = achs ! i"
      using len by (auto simp: in_set_conv_nth)
    from each i have "ach_userid (achs ! i) = PNone"
      and "\<forall>k. k \<noteq> ''is_hidden'' \<longrightarrow> ach_cache (achs ! i) k = None"
      by simp_all
    with a show "ach_cache a ''is_achieved'' = None \<and> ach_userid a = PNone"
      by simp
  qed
  have c1: "calls w1 = calls w @
              [APICall ''ISteamUserStats'' ''GetGlobalAchievementPercentagesForApp'' ''v0002''
                 [(''gameid'', app_id self)]]"
    using global by (auto simp: APIConnection_call_eq tick_def)
  from SteamApp_schema_cases [OF schema]
  have "calls w2 = calls w1 \<or>
        calls w2 = calls w1 @
          [APICall ''ISteamUserStats'' ''GetSchemaForGame'' ''v2'' [(''appid'', app_id self)]]"
    by blast
  with c1 calls have cs:
    "calls w' = calls w @
              [APICall ''ISteamUserStats'' ''GetGlobalAchievementPercentagesForApp'' ''v0002''
                 [(''gameid'', app_id self)]] \<or>
     calls w' = calls w @
              [APICall ''ISteamUserStats'' ''GetGlobalAchievementPercentagesForApp'' ''v0002''
                 [(''gameid'', app_id self)],
               APICall ''ISteamUserStats'' ''GetSchemaForGame'' ''v2'' [(''appid'', app_id self)]]"
    by simp
  show ?thesis
    using run len none cs by (intro exI conjI)
qed

theorem achievements_without_user_witness:
  "\<exists>achs self' w'.
     SteamApp_achievements (ex_env ex_schema ex_stats) (ex_app PNone) w0 =
       (Inr (CAchs achs, self'), w') \<and>
     length achs = 2 \<and>
     ach_cache (achs ! 0) ''is_achieved'' = None \<and>
     ach_cache (achs ! 1) ''is_achieved'' = None \<and>
     (calls w' =
        [APICall ''ISteamUserStats'' ''GetGlobalAchievementPercentagesForApp'' ''v0002''
           [(''gameid'', PInt 440)]] \<or>
      calls w' =
        [APICall ''ISteamUserStats'' ''GetGlobalAchievementPercentagesForApp'' ''v0002''
           [(''gameid'', PInt 440)],
         APICall ''ISteamUserStats'' ''GetSchemaForGame'' ''v2'' [(''appid'', PInt 440)]])"
proof -
  let ?e = "ex_env ex_schema ex_stats"
  let ?self = "ex_app PNone"
  let ?G = "APICall ''ISteamUserStats'' ''GetGlobalAchievementPercentagesForApp'' ''v0002''
              [(''gameid'', PInt 440)]"
  let ?S = "APICall ''ISteamUserStats'' ''GetSchemaForGame'' ''v2'' [(''appid'', PInt 440)]"
  let ?gs = "[PResp [(''name'', PStr ''A''), (''percent'', PFloat 10)],
              PResp [(''name'', PStr ''B''), (''percent'', PFloat 20)]]"
  let ?defs = "[PResp [(''name'', PStr ''A''), (''defaultvalue'', PInt 0),
                  (''displayName'', PStr ''First''), (''hidden'', PInt 0)],
           PResp [(''name'', PStr ''B''), (''defaultvalue'', PInt 0),
                  (''displayName'', PStr ''Second''), (''hidden'', PInt 1)]]"
  let ?self' = "set_app_cache ((app_cache ?self)(''_schema'' \<mapsto> (CVal ex_schema, 1))) ?self"
  have miss: "app_cache ?self ''achievements'' = None"
    by (simp add: ex_app_def)
  have unbound: "app_userid ?self = PNone"
    by (simp add: ex_app_def)
  have global: "APIConnection_call ?e ''ISteamUserStats'' ''GetGlobalAchievementPercentagesForApp''
                   ''v0002'' [(''gameid'', app_id ?self)] (tick w0) =
                (Inr ex_global, \<lparr>calls = [?G], ticks = 1\<rparr>)"
    by (simp add: APIConnection_call_eq ex_env_def ex_app_def w0_def tick_def)
  have ge: "global_entries ex_global = Inr ?gs"
    by (simp add: global_entries_def ex_global_def bind_e_def getattr_def iterate_def)
  have gs: "\<forall>g \<in> set ?gs. has_field g ''name'' \<and> has_field g ''percent''"
    by (simp add: has_field_def getattr_def)
  have schema: "SteamApp_schema ?e ?self \<lparr>calls = [?G], ticks = 1\<rparr> =
                  (Inr (CVal ex_schema, ?self'), \<lparr>calls = [?G, ?S], ticks = 2\<rparr>)"
    by (simp add: SteamApp_schema_def cached_property_miss [of app_cache] ex_app_def
        SteamApp_schema_fget_def bind_def APIConnection_call_eq ex_env_def tick_def return_def)
  have defs: "schema_achievements (CVal ex_schema) = Inr ?defs"
    by (simp add: schema_achievements_def getattr_c_def getattr_def ex_schema_def bind_e_def
        iterate_def)
  have ds: "\<forall>d \<in> set ?defs. has_field d ''name'' \<and> has_field d ''displayName'' \<and> has_field d ''hidden''"
    by (simp add: has_field_def getattr_def)
  from achievements_without_user [OF miss unbound global ge gs schema defs ds]
  obtain achs self'' w' where
    run: "SteamApp_achievements ?e ?self w0 = (Inr (CAchs achs, self''), w')"
    and len: "length achs = length ?defs"
    and none: "\<forall>a \<in> set achs. ach_cache a ''is_achieved'' = None \<and> ach_userid a = PNone"
    and cs: "calls w' = calls w0 @
              [APICall ''ISteamUserStats'' ''GetGlobalAchievementPercentagesForApp'' ''v0002''
                 [(''gameid'', app_id ?self)]] \<or>
            calls w' = calls w0 @
              [APICall ''ISteamUserStats'' ''GetGlobalAchievementPercentagesForApp'' ''v0002''
                 [(''gameid'', app_id ?self)],
               APICall ''ISteamUserStats'' ''GetSchemaForGame'' ''v2'' [(''appid'', app_id ?self)]]"
    by (elim exE conjE)
  from len have l2: "length achs = 2" by simp
  then have "achs ! 0 \<in> set achs" "achs ! 1 \<in> set achs"
    by simp_all
  with none have n: "ach_cache (achs ! 0) ''is_achieved'' = None"
    "ach_cache (achs ! 1) ''is_achieved'' = None"
    by blast+
  from cs have cs': "calls w' = [?G] \<or> calls w' = [?G, ?S]"
    by (simp add: w0_def ex_app_def)
  show ?thesis
    using run l2 n cs' by (intro exI conjI)
qed

lemma contains_PResp_any:
  "contains k (PResp fs) = Inr (case k of PStr s \<Rightarrow> map_of fs s \<noteq> None | _ \<Rightarrow> False)"
  by (simp add: contains_def)

lemma achievements_absent_key:
  assumes miss: "app_cache self ''achievements'' = None"
    and bound: "app_userid self \<noteq> PNone"
    and global: "APIConnection_call e ''ISteamUserStats'' ''GetGlobalAchievementPercentagesForApp''
                   ''v0002'' [(''gameid'', app_id self)] (tick w) = (Inr gp, w1)"
    and ge: "global_entries gp = Inr gs"
    and gs: "\<forall>g \<in> set gs. has_field g ''name'' \<and> has_field g ''percent''"
    and stats: "APIConnection_call e ''ISteamUserStats'' ''GetUserStatsForGame'' ''v2''
                  [(''appid'', app_id self), (''steamid'', app_userid self)] w1 =
                (Inr (PResp fs), w2)"
    and ps: "getattr (PResp fs) ''playerstats'' = Inr playerstats"
    and absent: "contains (PStr ''achievements'') playerstats = Inr False"
    and schema: "SteamApp_schema e self w2 = (Inr (schema, self'), w3)"
    and defs: "schema_achievements schema = Inr defs"
    and ds: "\<forall>d \<in> set defs. has_field d ''name'' \<and> has_field d ''displayName'' \<and> has_field d ''hidden''"
  shows "\<exists>achs self'' w'.
           SteamApp_achievements e self w = (Inr (CAchs achs, self''), w') \<and>
           length achs = length defs \<and>
           (\<forall>i < length defs.
              ach_id (achs ! i) = field_of (defs ! i) ''name'' \<and>
              cached (achs ! i) ''is_achieved'' =
                Some (PBool (case ach_id (achs ! i) of
                               PStr s \<Rightarrow> map_of fs s \<noteq> None
                             | _ \<Rightarrow> False)))"
proof -
  have user: "fetch_unlocks e self w1 = (Inr (app_userid self, PResp fs), w2)"
    by (rule fetch_unlocks_absent [OF bound stats ps absent])
  have nn: "PResp fs \<noteq> PNone"
    by simp
  from achievements_marked [OF miss global user nn contains_PResp_any schema defs ds ge gs]
  show ?thesis by blast
qed

text \<open>
  C4. When the user's statistics have no \<open>achievements\<close>, \<open>unlocks\<close> stays the
  response object, and \<open>achievement.apiname in unlocks\<close> asks whether the response has
  a field of that name (\<open>achievements_absent_key\<close>): nothing is raised, and an
  achievement is stored as not achieved unless its API name is the name of a field of
  the response. The response has the field \<open>playerstats\<close>, so an achievement whose
  API name is \<open>playerstats\<close> is stored as achieved, for a user who has achieved
  nothing.
\<close>

theorem achievements_absent_key_marks_field_name:
  "\<exists>achs self' w'.
     SteamApp_achievements (ex_env ex_schema_playerstats ex_stats_none) (ex_app (PInt 7)) w0 =
       (Inr (CAchs achs, self'), w') \<and>
     length achs = 1 \<and>
     ach_id (achs ! 0) = PStr ''playerstats'' \<and>
     cached (achs ! 0) ''is_achieved'' = Some (PBool True)"
proof -
  let ?e = "ex_env ex_schema_playerstats ex_stats_none"
  let ?self = "ex_app (PInt 7)"
  let ?G = "APICall ''ISteamUserStats'' ''GetGlobalAchievementPercentagesForApp'' ''v0002''
              [(''gameid'', PInt 440)]"
  let ?U = "APICall ''ISteamUserStats'' ''GetUserStatsForGame'' ''v2''
              [(''appid'', PInt 440), (''steamid'', PInt 7)]"
  let ?S = "APICall ''ISteamUserStats'' ''GetSchemaForGame'' ''v2'' [(''appid'', PInt 440)]"
  let ?gs = "[PResp [(''name'', PStr ''A''), (''percent'', PFloat 10)],
              PResp [(''name'', PStr ''B''), (''percent'', PFloat 20)]]"
  let ?ps = "PResp [(''steamID'', PStr ''7''), (''gameName'', PStr ''Example'')]"
  let ?fs = "[(''playerstats'', ?ps)]"
  let ?defs = "[PResp [(''name'', PStr ''playerstats''), (''defaultvalue'', PInt 0),
                  (''displayName'', PStr ''Statistician''), (''hidden'', PInt 0)]]"
  let ?self' = "set_app_cache ((app_cache ?self)(''_schema'' \<mapsto> (CVal ex_schema_playerstats, 1))) ?self"
  have miss: "app_cache ?self ''achievements'' = None"
    by (simp add: ex_app_def)
  have bound: "app_userid ?self \<noteq> PNone"
    by (simp add: ex_app_def)
  have global: "APIConnection_call ?e ''ISteamUserStats'' ''GetGlobalAchievementPercentagesForApp''
                   ''v0002'' [(''gameid'', app_id ?self)] (tick w0) =
                (Inr ex_global, \<lparr>calls = [?G], ticks = 1\<rparr>)"
    by (simp add: APIConnection_call_eq ex_env_def ex_app_def w0_def tick_def)
  have ge: "global_entries ex_global = Inr ?gs"
    by (simp add: global_entries_def ex_global_def bind_e_def getattr_def iterate_def)
  have gs: "\<forall>g \<in> set ?gs. has_field g ''name'' \<and> has_field g ''percent''"
    by (simp add: has_field_def getattr_def)
  have stats: "APIConnection_call ?e ''ISteamUserStats'' ''GetUserStatsForGame'' ''v2''
                  [(''appid'', app_id ?self), (''steamid'', app_userid ?self)]
                  \<lparr>calls = [?G], ticks = 1\<rparr> =
               (Inr (PResp ?fs), \<lparr>calls = [?G, ?U], ticks = 1\<rparr>)"
    by (simp add: APIConnection_call_eq ex_env_def ex_app_def ex_stats_none_def)
  have ps: "getattr (PResp ?fs) ''playerstats'' = Inr ?ps"
    by (simp add: getattr_def)
  have absent: "contains (PStr ''achievements'') ?ps = Inr False"
    by (simp add: contains_def)
  have schema: "SteamApp_schema ?e ?self \<lparr>calls = [?G, ?U], ticks = 1\<rparr> =
                  (Inr (CVal ex_schema_playerstats, ?self'), \<lparr>calls = [?G, ?U, ?S], ticks = 2\<rparr>)"
    by (simp add: SteamApp_schema_def cached_property_miss [of app_cache] ex_app_def
        SteamApp_schema_fget_def bind_def APIConnection_call_eq ex_env_def tick_def return_def)
  have defs: "schema_achievements (CVal ex_schema_playerstats) = Inr ?defs"
    by (simp add: schema_achievements_def getattr_c_def getattr_def ex_schema_playerstats_def
        bind_e_def iterate_def)
  have ds: "\<forall>d \<in> set ?defs. has_field d ''name'' \<and> has_field d ''displayName'' \<and> has_field d ''hidden''"
    by (simp add: has_field_def getattr_def)
  from achievements_absent_key [OF miss bound global ge gs stats ps absent schema defs ds]
  obtain achs self'' w' where
    run: "SteamApp_achievements ?e ?self w0 = (Inr (CAchs achs, self''), w')"
    and len: "length achs = length ?defs"
    and each: "\<forall>i < length ?defs.
              ach_id (achs ! i) = field_of (?defs ! i) ''name'' \<and>
              cached (achs ! i) ''is_achieved'' =
                Some (PBool (case ach_id (achs ! i) of
                               PStr s \<Rightarrow> map_of ?fs s \<noteq> None
                             | _ \<Rightarrow> False))"
    by (elim exE conjE)
  from each have a: "ach_id (achs ! 0) = PStr ''playerstats''"
    by (simp add: field_of_def getattr_def)
  from each have "cached (achs ! 0) ''is_achieved'' =
                Some (PBool (case ach_id (achs ! 0) of
                               PStr s \<Rightarrow> map_of ?fs s \<noteq> None
                             | _ \<Rightarrow> False))"
    by simp
  with a have v: "cached (achs ! 0) ''is_achieved'' = Some (PBool True)"
    by simp
  from len have l1: "length achs = 1" by simp
  show ?thesis
    using run l1 a v by (intro exI conjI)
qed

section \<open>The name of an application\<close>

text \<open>
  C9, as stated, fails: an application constructed with a name has that name in its
  cache, so \<open>name\<close> returns it and never looks at the schema. Here the schema has a
  \<open>game\<close> section without \<open>gameName\<close>, and the name read is \<open>Portal\<close>, not
  \<open><Unknown>\<close>.
\<close>

theorem name_of_named_app_counterexample:
  "SteamApp_init (ex_env ex_schema_hidden ex_stats) (PInt 440) (PStr ''Portal'') PNone w0 =
     (Inr ex_named_app, \<lparr>calls = [], ticks = 1\<rparr>) \<and>
   getattr ex_schema_hidden ''game'' = Inr (PResp []) \<and>
   contains (PStr ''gameName'') (PResp []) = Inr False \<and>
   value_of (SteamApp_name (ex_env ex_schema_hidden ex_stats) ex_named_app)
     \<lparr>calls = [], ticks = 1\<rparr> = Inr (CVal (PStr ''Portal'')) \<and>
   value_of (SteamApp_name (ex_env ex_schema_hidden ex_stats) ex_named_app)
     \<lparr>calls = [], ticks = 1\<rparr> \<noteq> Inr (CVal (PStr ''<Unknown>''))"
  by (simp add: SteamApp_init_def bind_def time_time_def return_def ex_env_def w0_def tick_def
      ex_named_app_def getattr_def ex_schema_hidden_def contains_def value_of_def
      SteamApp_name_def cached_property_def expired_def)

text \<open>
  C9, amended. An application with a cached name (one constructed with a name) returns
  the cached name, with no request. An application with no cached name whose schema has
  a \<open>game\<close> section returns the section's \<open>gameName\<close> when it has one, and the
  string \<open><Unknown>\<close> when it has none.
\<close>

theorem name_property:
  "(app_cache self ''name'' = Some (v, t) \<longrightarrow>
      SteamApp_name e self w = (Inr (v, self), tick w)) \<and>
   (app_cache self ''name'' = None \<and>
    SteamApp_schema e self (tick w) = (Inr (schema, self'), w1) \<and>
    getattr_c schema ''game'' = Inr (PResp fs) \<longrightarrow>
      (\<exists>self'' w'. SteamApp_name e self w =
         (Inr (CVal (case map_of fs ''gameName'' of
                       None \<Rightarrow> PStr ''<Unknown>''
                     | Some gameName \<Rightarrow> gameName), self''), w')))"
proof (intro conjI impI)
  assume "app_cache self ''name'' = Some (v, t)"
  then show "SteamApp_name e self w = (Inr (v, self), tick w)"
    unfolding SteamApp_name_def by (rule cached_property_hit)
next
  assume a: "app_cache self ''name'' = None \<and>
    SteamApp_schema e self (tick w) = (Inr (schema, self'), w1) \<and>
    getattr_c schema ''game'' = Inr (PResp fs)"
  then have miss: "app_cache self ''name'' = None"
    and schema: "SteamApp_schema e self (tick w) = (Inr (schema, self'), w1)"
    and game: "getattr_c schema ''game'' = Inr (PResp fs)"
    by simp_all
  have "\<exists>w'. SteamApp_name_fget e self (tick w) =
          (Inr (CVal (case map_of fs ''gameName'' of
                       None \<Rightarrow> PStr ''<Unknown>''
                     | Some gameName \<Rightarrow> gameName), self'), w')"
    unfolding SteamApp_name_fget_def
    by (simp add: bind_def schema game lift_def contains_def SteamApp_schema_again [OF schema]
        getattr_def return_def split: option.splits)
  then obtain w' where "SteamApp_name_fget e self (tick w) =
          (Inr (CVal (case map_of fs ''gameName'' of
                       None \<Rightarrow> PStr ''<Unknown>''
                     | Some gameName \<Rightarrow> gameName), self'), w')"
    by blast
  then show "\<exists>self'' w'. SteamApp_name e self w =
         (Inr (CVal (case map_of fs ''gameName'' of
                       None \<Rightarrow> PStr ''<Unknown>''
                     | Some gameName \<Rightarrow> gameName), self''), w')"
    unfolding SteamApp_name_def
    using miss by (simp add: cached_property_miss [of app_cache])
qed

theorem name_property_witness:
  "SteamApp_name (ex_env ex_schema_hidden ex_stats) ex_named_app w0 =
     (Inr (CVal (PStr ''Portal''), ex_named_app), tick w0) \<and>
   (\<exists>self'' w'. SteamApp_name (ex_env ex_schema_hidden ex_stats) (ex_app PNone) w0 =
      (Inr (CVal (PStr ''<Unknown>''), self''), w')) \<and>
   (\<exists>self'' w'. SteamApp_name (ex_env ex_schema ex_stats) (ex_app PNone) w0 =
      (Inr (CVal (PStr ''Example''), self''), w'))"
proof -
  let ?S = "APICall ''ISteamUserStats'' ''GetSchemaForGame'' ''v2'' [(''appid'', PInt 440)]"
  let ?self = "ex_app PNone"
  let ?game = "[(''gameName'', PStr ''Example''), (''gameVersion'', PStr ''3''),
       (''availableGameStats'', PResp [(''achievements'', PList
          [PResp [(''name'', PStr ''A''), (''defaultvalue'', PInt 0),
                  (''displayName'', PStr ''First''), (''hidden'', PInt 0)],
           PResp [(''name'', PStr ''B''), (''defaultvalue'', PInt 0),
                  (''displayName'', PStr ''Second''), (''hidden'', PInt 1)]])])]"
  have hit: "app_cache ex_named_app ''name'' = Some (CVal (PStr ''Portal''), 0)"
    by (simp add: ex_named_app_def)
  have miss: "app_cache ?self ''name'' = None"
    by (simp add: ex_app_def)
  have schema1: "SteamApp_schema (ex_env ex_schema_hidden ex_stats) ?self (tick w0) =
      (Inr (CVal ex_schema_hidden,
            set_app_cache ((app_cache ?self)(''_schema'' \<mapsto> (CVal ex_schema_hidden, 1))) ?self),
       \<lparr>calls = [?S], ticks = 2\<rparr>)"
    by (simp add: SteamApp_schema_def cached_property_miss [of app_cache] ex_app_def
        SteamApp_schema_fget_def bind_def APIConnection_call_eq ex_env_def tick_def return_def
        w0_def)
  have game1: "getattr_c (CVal ex_schema_hidden) ''game'' = Inr (PResp [])"
    by (simp add: getattr_c_def getattr_def ex_schema_hidden_def)
  have schema2: "SteamApp_schema (ex_env ex_schema ex_stats) ?self (tick w0) =
      (Inr (CVal ex_schema,
            set_app_cache ((app_cache ?self)(''_schema'' \<mapsto> (CVal ex_schema, 1))) ?self),
       \<lparr>calls = [?S], ticks = 2\<rparr>)"
    by (simp add: SteamApp_schema_def cached_property_miss [of app_cache] ex_app_def
        SteamApp_schema_fget_def bind_def APIConnection_call_eq ex_env_def tick_def return_def
        w0_def)
  have game2: "getattr_c (CVal ex_schema) ''game'' = Inr (PResp ?game)"
    by (simp add: getattr_c_def getattr_def ex_schema_def)
  from name_property [of ex_named_app "CVal (PStr ''Portal'')" 0
      "ex_env ex_schema_hidden ex_stats" w0] hit
  have p1: "SteamApp_name (ex_env ex_schema_hidden ex_stats) ex_named_app w0 =
     (Inr (CVal (PStr ''Portal''), ex_named_app), tick w0)"
    by simp
  from name_property [of ?self _ _ "ex_env ex_schema_hidden ex_stats" w0
      "CVal ex_schema_hidden" _ _ "[]"] miss schema1 game1
  have p2: "\<exists>self'' w'. SteamApp_name (ex_env ex_schema_hidden ex_stats) ?self w0 =
      (Inr (CVal (PStr ''<Unknown>''), self''), w')"
    by simp
  from name_property [of ?self _ _ "ex_env ex_schema ex_stats" w0
      "CVal ex_schema" _ _ ?game] miss schema2 game2
  have p3: "\<exists>self'' w'. SteamApp_name (ex_env ex_schema ex_stats) ?self w0 =
      (Inr (CVal (PStr ''Example''), self''), w')"
    by simp
  from p1 p2 p3 show ?thesis by (intro conjI)
qed

section \<open>Store metadata\<close>

lemma StoreAPIConnection_call_eq:
  "StoreAPIConnection_call e endpoint ps w =
     (api e (calls w) (StoreCall endpoint ps), w\<lparr>calls := calls w @ [StoreCall endpoint ps]\<rparr>)"
  by (simp add: StoreAPIConnection_call_def call_def)

lemma app_info_absent:
  assumes miss: "app_cache self ''app_info'' = None"
    and resp: "StoreAPIConnection_call e ''appdetails'' (appdetails_params self) (tick w) =
                 (Inr response, w1)"
    and entry: "getitem response (py_str e (app_id self)) = Inr entry"
    and succ: "getattr entry ''success'' = Inr success"
    and falsy: "\<not> truthy success"
  shows "SteamApp_app_info e self w =
           (Inr (CVal PNone,
                 set_app_cache ((app_cache self)(''app_info'' \<mapsto> (CVal PNone, clock e (ticks w)))) self),
            w1)"
proof -
  have "SteamApp_app_info_fget e self (tick w) = (Inr (CVal PNone, self), w1)"
    using falsy
    by (simp add: SteamApp_app_info_fget_def bind_def resp entry succ lift_def return_def)
  then show ?thesis
    unfolding SteamApp_app_info_def
    using miss by (simp add: cached_property_miss [of app_cache])
qed

lemma app_info_field_none:
  assumes "SteamApp_app_info e self w = (Inr (CVal PNone, self'), w')"
  shows "app_info_field field e self w = (Inr (PNone, self'), w')"
  using assms by (simp add: app_info_field_def bind_def truthy_c_def return_def)

lemma derived_accessors_fields:
  "acc \<in> set derived_accessors \<Longrightarrow> \<exists>field. acc = app_info_field field"
  unfolding derived_accessors_def SteamApp_type_def SteamApp_required_age_def SteamApp_dlc_def
    SteamApp_detailed_description_def SteamApp_about_the_game_def
    SteamApp_supported_languages_def SteamApp_header_image_def SteamApp_legal_notice_def
    SteamApp_website_def SteamApp_pc_requirements_def SteamApp_mac_requirements_def
    SteamApp_linux_requirements_def SteamApp_fullgame_def SteamApp_developers_def
    SteamApp_publishers_def SteamApp_demos_def SteamApp_price_overview_def
    SteamApp_platforms_def SteamApp_metacritic_def SteamApp_categories_def SteamApp_genres_def
    SteamApp_recommendations_def SteamApp_release_date_def
  by auto

text \<open>
  C3. Let the store answer the one \<open>appdetails\<close> request with an entry for
  \<open>str(id)\<close> whose \<open>success\<close> is false, for an application with no cached
  \<open>app_info\<close>. Then \<open>app_info\<close> is \<open>None\<close>, with that one request made; every
  derived accessor, read on the fresh application, returns \<open>None\<close> at the cost of this
  same single request; and read on the application afterwards, every derived accessor
  returns \<open>None\<close> and the world only has its clock read: no request at all.
\<close>

theorem store_metadata_absent:
  assumes miss: "app_cache self ''app_info'' = None"
    and resp: "StoreAPIConnection_call e ''appdetails'' (appdetails_params self) (tick w) =
                 (Inr response, w1)"
    and entry: "getitem response (py_str e (app_id self)) = Inr entry"
    and succ: "getattr entry ''success'' = Inr success"
    and falsy: "\<not> truthy success"
  shows "\<exists>self'.
           SteamApp_app_info e self w = (Inr (CVal PNone, self'), w1) \<and>
           calls w1 = calls w @ [StoreCall ''appdetails'' (appdetails_params self)] \<and>
           (\<forall>acc \<in> set derived_accessors.
              acc e self w = (Inr (PNone, self'), w1) \<and>
              (\<forall>w2. acc e self' w2 = (Inr (PNone, self'), tick w2)))"
proof -
  let ?self' = "set_app_cache ((app_cache self)(''app_info'' \<mapsto> (CVal PNone, clock e (ticks w)))) self"
  have info: "SteamApp_app_info e self w = (Inr (CVal PNone, ?self'), w1)"
    by (rule app_info_absent [OF miss resp entry succ falsy])
  have cs: "calls w1 = calls w @ [StoreCall ''appdetails'' (appdetails_params self)]"
    using resp by (auto simp: StoreAPIConnection_call_eq tick_def)
  have hit: "app_cache ?self' ''app_info'' = Some (CVal PNone, clock e (ticks w))"
    by (simp add: set_app_cache_def)
  have again: "SteamApp_app_info e ?self' w2 = (Inr (CVal PNone, ?self'), tick w2)" for w2
    unfolding SteamApp_app_info_def using hit by (rule cached_property_hit)
  have accs: "\<forall>acc \<in> set derived_accessors.
              acc e self w = (Inr (PNone, ?self'), w1) \<and>
              (\<forall>w2. acc e ?self' w2 = (Inr (PNone, ?self'), tick w2))"
  proof
    fix acc assume "acc \<in> set derived_accessors"
    then obtain field where acc: "acc = app_info_field field"
      using derived_accessors_fields by blast
    show "acc e self w = (Inr (PNone, ?self'), w1) \<and>
              (\<forall>w2. acc e ?self' w2 = (Inr (PNone, ?self'), tick w2))"
      unfolding acc using app_info_field_none [OF info] app_info_field_none [OF again]
      by blast
  qed
  from info cs accs show ?thesis
    by (intro exI conjI)
qed

theorem store_metadata_absent_witness:
  "\<exists>self'.
     SteamApp_app_info (ex_env ex_schema ex_stats) (ex_app PNone) w0 =
       (Inr (CVal PNone, self'),
        \<lparr>calls = [StoreCall ''appdetails'' (appdetails_params (ex_app PNone))], ticks = 1\<rparr>) \<and>
     SteamApp_type (ex_env ex_schema ex_stats) (ex_app PNone) w0 =
       (Inr (PNone, self'),
        \<lparr>calls = [StoreCall ''appdetails'' (appdetails_params (ex_app PNone))], ticks = 1\<rparr>) \<and>
     SteamApp_platforms (ex_env ex_schema ex_stats) self'
        \<lparr>calls = [StoreCall ''appdetails'' (appdetails_params (ex_app PNone))], ticks = 1\<rparr> =
       (Inr (PNone, self'),
        \<lparr>calls = [StoreCall ''appdetails'' (appdetails_params (ex_app PNone))], ticks = 2\<rparr>)"
proof -
  let ?e = "ex_env ex_schema ex_stats"
  let ?self = "ex_app PNone"
  let ?w1 = "\<lparr>calls = [StoreCall ''appdetails'' (appdetails_params ?self)], ticks = 1\<rparr>"
  have miss: "app_cache ?self ''app_info'' = None"
    by (simp add: ex_app_def)
  have resp: "StoreAPIConnection_call ?e ''appdetails'' (appdetails_params ?self) (tick w0) =
                 (Inr ex_store_failed, ?w1)"
    by (simp add: StoreAPIConnection_call_eq ex_env_def w0_def tick_def)
  have str: "py_str ?e (app_id ?self) = ''440''"
    by (simp add: py_str_def ex_app_def str_nat.simps)
  have entry: "getitem ex_store_failed (py_str ?e (app_id ?self)) =
                 Inr (PResp [(''success'', PBool False)])"
    unfolding str by (simp add: getitem_def ex_store_failed_def)
  have succ: "getattr (PResp [(''success'', PBool False)]) ''success'' = Inr (PBool False)"
    by (simp add: getattr_def)
  have falsy: "\<not> truthy (PBool False)"
    by simp
  from store_metadata_absent [OF miss resp entry succ falsy]
  obtain self' where
    info: "SteamApp_app_info ?e ?self w0 = (Inr (CVal PNone, self'), ?w1)"
    and accs: "\<forall>acc \<in> set derived_accessors.
              acc ?e ?self w0 = (Inr (PNone, self'), ?w1) \<and>
              (\<forall>w2. acc ?e self' w2 = (Inr (PNone, self'), tick w2))"
    by (elim exE conjE)
  have "SteamApp_type \<in> set derived_accessors" "SteamApp_platforms \<in> set derived_accessors"
    by (simp_all add: derived_accessors_def)
  with accs have t: "SteamApp_type ?e ?self w0 = (Inr (PNone, self'), ?w1)"
    and p: "SteamApp_platforms ?e self' ?w1 = (Inr (PNone, self'), tick ?w1)"
    by blast+
  from p have p': "SteamApp_platforms ?e self' ?w1 =
       (Inr (PNone, self'),
        \<lparr>calls = [StoreCall ''appdetails'' (appdetails_params ?self)], ticks = 2\<rparr>)"
    by (simp add: tick_def)
  from info t p' show ?thesis
    by (intro exI conjI)
qed

section \<open>is_unlocked\<close>

text \<open>
  C7. With no user bound, the computation of \<open>is_unlocked\<close> raises the \<open>ValueError\<close>
  before any request, in every world. Read as the cached property on an achievement
  whose cache has no entry \<open>is_unlocked\<close> (neither the constructor nor
  \<open>SteamApp.achievements\<close> ever stores one), the error is what the read raises; the
  world has its clock read once and the same requests as before.
\<close>

theorem is_unlocked_requires_user:
  assumes unbound: "ach_userid self = PNone"
    and miss: "ach_cache self ''is_unlocked'' = None"
  shows "SteamAchievement_is_unlocked e self w =
           (Inl (ValueError ''No Steam ID linked to this achievement!''), tick w) \<and>
         calls (tick w) = calls w \<and>
         SteamAchievement_is_unlocked_fget e self w =
           (Inl (ValueError ''No Steam ID linked to this achievement!''), w)"
proof -
  have fget: "SteamAchievement_is_unlocked_fget e self w' =
           (Inl (ValueError ''No Steam ID linked to this achievement!''), w')" for w'
    using unbound by (simp add: SteamAchievement_is_unlocked_fget_def raise_def)
  have "SteamAchievement_is_unlocked e self w =
           (Inl (ValueError ''No Steam ID linked to this achievement!''), tick w)"
    unfolding SteamAchievement_is_unlocked_def
    using miss by (simp add: cached_property_miss [of ach_cache] fget)
  with fget show ?thesis
    by (simp add: tick_def)
qed

theorem is_unlocked_requires_user_witness:
  "ach_userid (SteamAchievement_init (PInt 440) (PStr ''A'') (PStr ''First'') PNone) = PNone \<and>
   ach_cache (SteamAchievement_init (PInt 440) (PStr ''A'') (PStr ''First'') PNone)
     ''is_unlocked'' = None \<and>
   SteamAchievement_is_unlocked (ex_env ex_schema ex_stats)
     (SteamAchievement_init (PInt 440) (PStr ''A'') (PStr ''First'') PNone) w0 =
     (Inl (ValueError ''No Steam ID linked to this achievement!''), \<lparr>calls = [], ticks = 1\<rparr>)"
proof -
  let ?a = "SteamAchievement_init (PInt 440) (PStr ''A'') (PStr ''First'') PNone"
  have unbound: "ach_userid ?a = PNone"
    by (simp add: SteamAchievement_init_def)
  have miss: "ach_cache ?a ''is_unlocked'' = None"
    by (simp add: SteamAchievement_init_def)
  from is_unlocked_requires_user [OF unbound miss, of "ex_env ex_schema ex_stats" w0]
  have "SteamAchievement_is_unlocked (ex_env ex_schema ex_stats) ?a w0 =
     (Inl (ValueError ''No Steam ID linked to this achievement!''), \<lparr>calls = [], ticks = 1\<rparr>)"
    by (simp add: tick_def w0_def)
  with unbound miss show ?thesis by (intro conjI)
qed

lemma find_unlocked_no_match:
  assumes "\<forall>a \<in> set items. has_field a ''apiname'' \<and> \<not> py_eq (field_of a ''apiname'') self_id"
  shows "find_unlocked self_id items = Inr (PBool False)"
  using assms by (induction items) (simp_all add: bind_e_def has_field_getattr)

text \<open>
  With a user bound and no cached \<open>is_unlocked\<close>, when the reply carries the list
  \<open>playerstats.achievements\<close>, every entry of it has an \<open>apiname\<close> and none equals
  the id of this achievement, \<open>is_unlocked\<close> returns \<open>False\<close> (and caches it).
\<close>

lemma is_unlocked_not_found:
  assumes bound: "ach_userid self \<noteq> PNone"
    and miss: "ach_cache self ''is_unlocked'' = None"
    and resp: "APIConnection_call e ''ISteamUserStats'' ''GetPlayerAchievements'' ''v1''
                 [(''steamid'', ach_userid self), (''appid'', ach_appid self),
                  (''l'', PStr ''English'')] (tick w) = (Inr response, w1)"
    and ps: "getattr response ''playerstats'' = Inr playerstats"
    and its: "bind_e (getattr playerstats ''achievements'') iterate = Inr items"
    and nomatch: "\<forall>a \<in> set items. has_field a ''apiname'' \<and>
                    \<not> py_eq (field_of a ''apiname'') (ach_id self)"
  shows "SteamAchievement_is_unlocked e self w =
           (Inr (PBool False,
                 set_ach_cache ((ach_cache self)(''is_unlocked'' \<mapsto>
                   (PBool False, clock e (ticks w)))) self), w1)"
proof -
  from its obtain l where l: "getattr playerstats ''achievements'' = Inr l" and it: "iterate l = Inr items"
    by (cases "getattr playerstats ''achievements''") (simp_all add: bind_e_def)
  have "SteamAchievement_is_unlocked_fget e self (tick w) = (Inr (PBool False, self), w1)"
    using bound
    by (simp add: SteamAchievement_is_unlocked_fget_def bind_def resp ps l it lift_def
        find_unlocked_no_match [OF nomatch] return_def)
  then show ?thesis
    unfolding SteamAchievement_is_unlocked_def
    using miss by (simp add: cached_property_miss [of ach_cache])
qed

lemma is_unlocked_not_found_example:
  "value_of (SteamAchievement_is_unlocked (ex_env ex_schema ex_stats)
     (SteamAchievement_init (PInt 440) (PStr ''B'') (PStr ''Second'') (PInt 7))) w0 =
   Inr (PBool False)"
proof -
  let ?e = "ex_env ex_schema ex_stats"
  let ?a = "SteamAchievement_init (PInt 440) (PStr ''B'') (PStr ''Second'') (PInt 7)"
  let ?P = "APICall ''ISteamUserStats'' ''GetPlayerAchievements'' ''v1''
                 [(''steamid'', PInt 7), (''appid'', PInt 440), (''l'', PStr ''English'')]"
  let ?items = "[PResp [(''apiname'', PStr ''A''), (''achieved'', PInt 1), (''unlocktime'', PInt 5)]]"
  let ?ps = "PResp [(''steamID'', PStr ''7''), (''gameName'', PStr ''Example''),
       (''achievements'', PList ?items), (''success'', PBool True)]"
  have bound: "ach_userid ?a \<noteq> PNone"
    by (simp add: SteamAchievement_init_def)
  have miss: "ach_cache ?a ''is_unlocked'' = None"
    by (simp add: SteamAchievement_init_def)
  have resp: "APIConnection_call ?e ''ISteamUserStats'' ''GetPlayerAchievements'' ''v1''
                 [(''steamid'', ach_userid ?a), (''appid'', ach_appid ?a),
                  (''l'', PStr ''English'')] (tick w0) =
              (Inr ex_player, \<lparr>calls = [?P], ticks = 1\<rparr>)"
    by (simp add: APIConnection_call_eq ex_env_def SteamAchievement_init_def w0_def tick_def)
  have ps: "getattr ex_player ''playerstats'' = Inr ?ps"
    by (simp add: getattr_def ex_player_def)
  have its: "bind_e (getattr ?ps ''achievements'') iterate = Inr ?items"
    by (simp add: getattr_def bind_e_def iterate_def)
  have nomatch: "\<forall>a \<in> set ?items. has_field a ''apiname'' \<and>
                    \<not> py_eq (field_of a ''apiname'') (ach_id ?a)"
    by (simp add: has_field_def field_of_def getattr_def SteamAchievement_init_def)
  from is_unlocked_not_found [OF bound miss resp ps its nomatch]
  show ?thesis
    by (simp add: value_of_def)
qed

text \<open>
  A reply whose \<open>playerstats\<close> has no \<open>achievements\<close> has no entry of any name, but
  line 379 reads \<open>response.playerstats.achievements\<close> with no test for its presence:
  the read raises \<open>AttributeError\<close>, after the request was made, and nothing is cached.
\<close>

lemma is_unlocked_absent_list:
  assumes bound: "ach_userid self \<noteq> PNone"
    and miss: "ach_cache self ''is_unlocked'' = None"
    and resp: "APIConnection_call e ''ISteamUserStats'' ''GetPlayerAchievements'' ''v1''
                 [(''steamid'', ach_userid self), (''appid'', ach_appid self),
                  (''l'', PStr ''English'')] (tick w) = (Inr response, w1)"
    and ps: "getattr response ''playerstats'' = Inr (PResp fs)"
    and absent: "map_of fs ''achievements'' = None"
  shows "SteamAchievement_is_unlocked e self w = (Inl (AttributeError ''achievements''), w1)"
proof -
  have l: "getattr (PResp fs) ''achievements'' = Inl (AttributeError ''achievements'')"
    by (simp add: getattr_def absent)
  have "SteamAchievement_is_unlocked_fget e self (tick w) =
          (Inl (AttributeError ''achievements''), w1)"
    using bound
    by (simp add: SteamAchievement_is_unlocked_fget_def bind_def resp ps l lift_def)
  then show ?thesis
    unfolding SteamAchievement_is_unlocked_def
    using miss by (simp add: cached_property_miss [of ach_cache])
qed

text \<open>
  C10. For the achievement B of the application 440, bound to the user 7, let the reply
  to \<open>GetPlayerAchievements\<close> have a \<open>playerstats\<close> without \<open>achievements\<close>: no entry
  of the reply has the API name B. Reading \<open>is_unlocked\<close> does not return \<open>False\<close>:
  it raises \<open>AttributeError\<close>, with the one request made. The sibling
  \<open>SteamApp.achievements\<close> tests for the key (line 67) before it reads the list.
\<close>

theorem is_unlocked_without_list_raises:
  "SteamAchievement_is_unlocked ex_env_no_list
     (SteamAchievement_init (PInt 440) (PStr ''B'') (PStr ''Second'') (PInt 7)) w0 =
   (Inl (AttributeError ''achievements''),
    \<lparr>calls = [APICall ''ISteamUserStats'' ''GetPlayerAchievements'' ''v1''
                [(''steamid'', PInt 7), (''appid'', PInt 440), (''l'', PStr ''English'')]],
      ticks = 1\<rparr>) \<and>
   value_of (SteamAchievement_is_unlocked ex_env_no_list
     (SteamAchievement_init (PInt 440) (PStr ''B'') (PStr ''Second'') (PInt 7))) w0 \<noteq>
   Inr (PBool False)"
proof -
  let ?a = "SteamAchievement_init (PInt 440) (PStr ''B'') (PStr ''Second'') (PInt 7)"
  let ?P = "APICall ''ISteamUserStats'' ''GetPlayerAchievements'' ''v1''
                 [(''steamid'', PInt 7), (''appid'', PInt 440), (''l'', PStr ''English'')]"
  let ?fs = "[(''steamID'', PStr ''7''), (''gameName'', PStr ''Example''),
              (''success'', PBool True)]"
  have bound: "ach_userid ?a \<noteq> PNone"
    by (simp add: SteamAchievement_init_def)
  have miss: "ach_cache ?a ''is_unlocked'' = None"
    by (simp add: SteamAchievement_init_def)
  have resp: "APIConnection_call ex_env_no_list ''ISteamUserStats'' ''GetPlayerAchievements'' ''v1''
                 [(''steamid'', ach_userid ?a), (''appid'', ach_appid ?a),
                  (''l'', PStr ''English'')] (tick w0) =
              (Inr ex_player_no_list, \<lparr>calls = [?P], ticks = 1\<rparr>)"
    by (simp add: APIConnection_call_eq ex_env_no_list_def SteamAchievement_init_def w0_def
        tick_def)
  have ps: "getattr ex_player_no_list ''playerstats'' = Inr (PResp ?fs)"
    by (simp add: getattr_def ex_player_no_list_def)
  have absent: "map_of ?fs ''achievements'' = None"
    by simp
  have run: "SteamAchievement_is_unlocked ex_env_no_list ?a w0 =
               (Inl (AttributeError ''achievements''), \<lparr>calls = [?P], ticks = 1\<rparr>)"
    by (rule is_unlocked_absent_list [OF bound miss resp ps absent])
  then have "value_of (SteamAchievement_is_unlocked ex_env_no_list ?a) w0 \<noteq> Inr (PBool False)"
    by (simp add: value_of_def)
  with run show ?thesis by (intro conjI)
qed

section \<open>Hash keys\<close>

lemma equal_keys_equal_hash:
  "SteamApp_hash_key a = SteamAchievement_hash_key h \<Longrightarrow>
   SteamApp_hash py_hash a = SteamAchievement_hash py_hash h"
  by (simp add: SteamApp_hash_def SteamAchievement_hash_def)

text \<open>The key of an application is \<open>('app', id)\<close> and that of an achievement is
  \<open>(id, appid)\<close>: the two are the same pair exactly when the id of the achievement is
  the string \<open>app\<close> and its \<open>appid\<close> is the id of the application.\<close>

lemma hash_keys_equal_iff:
  "(SteamApp_hash_key a = SteamAchievement_hash_key h) =
     (ach_id h = PStr ''app'' \<and> ach_appid h = app_id a)"
  by (auto simp: SteamApp_hash_key_def SteamAchievement_hash_key_def)

text \<open>
  C5. The key an achievement hashes is \<open>(id, appid)\<close>: it has no type discriminator,
  where the key of an application is tagged with \<open>app\<close>, and where the comment of
  both \<open>__hash__\<close> methods says that objects of different types must not match. The
  application 100 and the achievement named \<open>app\<close> of the application 100 hash the
  same pair, so their hashes are equal whatever Python's \<open>hash\<close> is.
\<close>

theorem hash_collision_across_types:
  "SteamApp_hash py_hash
     \<lparr>app_id = PInt 100, app_cache = Map.empty, app_owner = PNone, app_userid = PNone\<rparr> =
   SteamAchievement_hash py_hash
     (SteamAchievement_init (PInt 100) (PStr ''app'') (PStr ''Application'') PNone) \<and>
   SteamApp_hash_key
     \<lparr>app_id = PInt 100, app_cache = Map.empty, app_owner = PNone, app_userid = PNone\<rparr> =
   SteamAchievement_hash_key
     (SteamAchievement_init (PInt 100) (PStr ''app'') (PStr ''Application'') PNone)"
proof -
  have k: "SteamApp_hash_key
     \<lparr>app_id = PInt 100, app_cache = Map.empty, app_owner = PNone, app_userid = PNone\<rparr> =
   SteamAchievement_hash_key
     (SteamAchievement_init (PInt 100) (PStr ''app'') (PStr ''Application'') PNone)"
    by (simp add: SteamApp_hash_key_def SteamAchievement_hash_key_def SteamAchievement_init_def)
  from equal_keys_equal_hash [OF k] k show ?thesis
    by (intro conjI)
qed

end
